theory Spec2Isabelle
  imports Main "HOL-Library.Word"
begin

section \<open>Values shared by the TypeScript sources\<close>

text \<open>
  A \<^verbatim>\<open>Uint8Array\<close> is a list of 8-bit words; a JavaScript string is a \<open>string\<close>
  (the model covers the code units below 256). A thrown \<^verbatim>\<open>Error(msg)\<close> is the
  value \<open>Error msg\<close> on the left of a sum.
\<close>

type_synonym bytes = "8 word list"

datatype error = Error string

subsection \<open>JavaScript string and number primitives used by the codec\<close>

definition hexDigit :: "nat \<Rightarrow> char" where
  "hexDigit d = ''0123456789abcdef'' ! (d mod 16)"

text \<open>\<^verbatim>\<open>n.toString(16)\<close> for a non-negative integer: lowercase, no leading zero, \<open>''0''\<close> for 0.\<close>

function toString16 :: "nat \<Rightarrow> string" where
  "toString16 n = (if n < 16 then [hexDigit n] else toString16 (n div 16) @ [hexDigit (n mod 16)])"
  by pat_completeness auto
termination
  by (relation "measure id") auto

declare toString16.simps [simp del]

text \<open>\<^verbatim>\<open>s.padStart(n, c)\<close> with a one-character filler.\<close>

definition padStart :: "nat \<Rightarrow> char \<Rightarrow> string \<Rightarrow> string" where
  "padStart n c s = replicate (n - length s) c @ s"

text \<open>\<^verbatim>\<open>s.startsWith('0x')\<close>.\<close>

definition startsWith0x :: "string \<Rightarrow> bool" where
  "startsWith0x s = (take 2 s = ''0x'')"

text \<open>The character class \<^verbatim>\<open>[0-9a-fA-F]\<close> and the value of such a digit.\<close>

definition isHexChar :: "char \<Rightarrow> bool" where
  "isHexChar c = (c \<in> set ''0123456789abcdefABCDEF'')"

definition hexCharValue :: "char \<Rightarrow> nat" where
  "hexCharValue c =
     (let k = of_char c :: nat in
      if 48 \<le> k \<and> k \<le> 57 then k - 48
      else if 97 \<le> k \<and> k \<le> 102 then k - 87
      else k - 55)"

text \<open>
  \<^verbatim>\<open>parseInt(s, 16)\<close>: leading white space is skipped, one sign is read, a
  \<^verbatim>\<open>0x\<close> or \<^verbatim>\<open>0X\<close> prefix is dropped, then the longest run of hex digits is
  read; with no digit the result is \<^verbatim>\<open>NaN\<close>, here \<open>None\<close>.
\<close>

definition isJsWhiteSpace :: "char \<Rightarrow> bool" where
  "isJsWhiteSpace c = (of_char c \<in> {9, 10, 11, 12, 13, 32, 160 :: nat})"

definition hexDigitsValue :: "string \<Rightarrow> nat" where
  "hexDigitsValue s = foldl (\<lambda>acc c. 16 * acc + hexCharValue c) 0 s"

definition parseInt16 :: "string \<Rightarrow> int option" where
  "parseInt16 s =
     (let t = dropWhile isJsWhiteSpace s;
          neg = (take 1 t = ''-'');
          t1 = (if take 1 t = ''-'' \<or> take 1 t = ''+'' then drop 1 t else t);
          t2 = (if take 2 t1 = ''0x'' \<or> take 2 t1 = ''0X'' then drop 2 t1 else t1);
          ds = takeWhile isHexChar t2
      in if ds = [] then None
         else Some (if neg then - int (hexDigitsValue ds) else int (hexDigitsValue ds)))"

text \<open>Storing a number into a \<^verbatim>\<open>Uint8Array\<close> slot: \<^verbatim>\<open>NaN\<close> becomes 0, an integer wraps modulo 256.\<close>

definition toUint8 :: "int option \<Rightarrow> 8 word" where
  "toUint8 v = (case v of None \<Rightarrow> 0 | Some n \<Rightarrow> word_of_int n)"

section \<open>HexCodec\<close>

text \<open>\<^verbatim>\<open>bytesToHex\<close> (crypto module of the signing plugin, and the wallet's copies).\<close>

definition byteToHex :: "8 word \<Rightarrow> string" where
  "byteToHex b = padStart 2 (CHR ''0'') (toString16 (unat b))"

definition bytesToHex :: "bytes \<Rightarrow> string" where
  "bytesToHex bs = ''0x'' @ concat (map byteToHex bs)"

text \<open>
  The decoding loop shared by \<^verbatim>\<open>hexToBytes\<close> and \<^verbatim>\<open>hexToBytesStrict\<close>:
  \<^verbatim>\<open>bytes[i] = Number.parseInt(clean.slice(i * 2, i * 2 + 2), 16)\<close> for
  \<^verbatim>\<open>i < clean.length / 2\<close>. Both callers reach it with an even length only.
\<close>

fun parsePairs :: "string \<Rightarrow> bytes" where
  "parsePairs (a # b # rest) = toUint8 (parseInt16 [a, b]) # parsePairs rest"
| "parsePairs _ = []"

definition stripPrefix0x :: "string \<Rightarrow> string" where
  "stripPrefix0x hex = (if startsWith0x hex then drop 2 hex else hex)"

text \<open>\<^verbatim>\<open>hexToBytes\<close> of the plugin's crypto module: only the length is checked.\<close>

definition hexToBytes :: "string \<Rightarrow> error + bytes" where
  "hexToBytes hex =
     (let cleanHex = stripPrefix0x hex in
      if length cleanHex mod 2 \<noteq> 0 then Inl (Error ''Invalid hex string length'')
      else Inr (parsePairs cleanHex))"

text \<open>\<^verbatim>\<open>hexToBytesStrict\<close> of the wallet's remote-signer client.\<close>

definition hexToBytesStrict :: "string \<Rightarrow> error + bytes" where
  "hexToBytesStrict hex =
     (let clean = stripPrefix0x hex in
      if length clean mod 2 \<noteq> 0 then Inl (Error ''Hex value must have an even length'')
      else if \<not> list_all isHexChar clean then Inl (Error ''Hex value contains non-hex characters'')
      else Inr (parsePairs clean))"

section \<open>OperationCodec: packing and unpacking the gas fields\<close>

text \<open>\<^verbatim>\<open>PackedUserOp\<close> of the wallet: every field is a hex string.\<close>

record PackedUserOp =
  sender :: string
  nonce :: string
  initCode :: string
  callData :: string
  accountGasLimits :: string
  preVerificationGas :: string
  gasFees :: string
  paymasterAndData :: string
  signature :: string

text \<open>
  The library calls of \<^verbatim>\<open>buildUserOp\<close> on hex strings. \<^verbatim>\<open>numberToHex(n)\<close> is
  \<^verbatim>\<open>'0x' + n.toString(16)\<close>; \<^verbatim>\<open>pad(hex, {size})\<close> removes \<^verbatim>\<open>'0x'\<close> with
  \<^verbatim>\<open>hex.replace('0x', '')\<close>, throws when more than \<^verbatim>\<open>2 * size\<close> digits are left and
  pads on the left with \<^verbatim>\<open>'0'\<close>; \<^verbatim>\<open>concat\<close> joins the digits of its arguments behind
  one \<^verbatim>\<open>'0x'\<close>.
\<close>

fun removeFirst0x :: "string \<Rightarrow> string" where
  "removeFirst0x (a # b # rest) =
     (if a = CHR ''0'' \<and> b = CHR ''x'' then rest else a # removeFirst0x (b # rest))"
| "removeFirst0x s = s"

definition numberToHex :: "nat \<Rightarrow> string" where
  "numberToHex n = ''0x'' @ toString16 n"

definition pad :: "string \<Rightarrow> nat \<Rightarrow> error + string" where
  "pad hex sz =
     (let h = removeFirst0x hex in
      if length h > sz * 2 then Inl (Error ''SizeExceedsPaddingSizeError'')
      else Inr (''0x'' @ padStart (sz * 2) (CHR ''0'') h))"

definition concatHex :: "string list \<Rightarrow> string" where
  "concatHex xs = ''0x'' @ concat (map removeFirst0x xs)"

text \<open>
  Lines 113 to 123 of \<^verbatim>\<open>buildUserOp\<close>: two numbers, each padded to 16 bytes, joined into
  one 32-byte field. The source applies it to its fixed gas policy; the two numbers are
  arguments here.
\<close>

definition packPair :: "nat \<Rightarrow> nat \<Rightarrow> error + string" where
  "packPair hi lo =
     (case pad (numberToHex hi) 16 of
        Inl e \<Rightarrow> Inl e
      | Inr a \<Rightarrow>
          (case pad (numberToHex lo) 16 of
             Inl e \<Rightarrow> Inl e
           | Inr b \<Rightarrow> Inr (concatHex [a, b])))"

definition verificationGasLimit :: nat where "verificationGasLimit = 2000000"
definition callGasLimit :: nat where "callGasLimit = 100000"
definition preVerificationGas_policy :: nat where "preVerificationGas_policy = 100000"
definition maxPriorityFeePerGas :: nat where "maxPriorityFeePerGas = 1000000000"
definition maxFeePerGas :: nat where "maxFeePerGas = 10000000000"

text \<open>The record \<^verbatim>\<open>unpackUserOp\<close> returns; a \<^verbatim>\<open>null\<close> field is \<open>None\<close>.\<close>

record UnpackedUserOp =
  u_sender :: string
  u_nonce :: string
  u_factory :: "string option"
  u_factoryData :: "string option"
  u_callData :: string
  u_callGasLimit :: string
  u_verificationGasLimit :: string
  u_preVerificationGas :: string
  u_maxFeePerGas :: string
  u_maxPriorityFeePerGas :: string
  u_paymaster :: "string option"
  u_paymasterVerificationGasLimit :: "string option"
  u_paymasterPostOpGasLimit :: "string option"
  u_paymasterData :: "string option"
  u_signature :: string

definition ensureHexPrefix :: "string \<Rightarrow> string" where
  "ensureHexPrefix val =
     (if val = ''0x'' \<or> val = ''0x0'' \<or> val = [] then ''0x0''
      else if startsWith0x val then val else ''0x'' @ val)"

text \<open>\<^verbatim>\<open>'0x' + (digits.replace(/^0+/, '') || '0')\<close>.\<close>

definition stripZeros :: "string \<Rightarrow> string" where
  "stripZeros digits =
     (let t = dropWhile (\<lambda>c. c = CHR ''0'') digits in
      ''0x'' @ (if t = [] then ''0'' else t))"

definition unpackUserOp :: "PackedUserOp \<Rightarrow> UnpackedUserOp" where
  "unpackUserOp packed =
     (let agl = drop 2 (accountGasLimits packed);
          verificationGasLimit = stripZeros (take 32 agl);
          callGasLimit = stripZeros (drop 32 agl);
          gf = drop 2 (gasFees packed);
          maxPriorityFeePerGas = stripZeros (take 32 gf);
          maxFeePerGas = stripZeros (drop 32 gf)
      in \<lparr> u_sender = sender packed,
           u_nonce = nonce packed,
           u_factory = None,
           u_factoryData = None,
           u_callData = callData packed,
           u_callGasLimit = ensureHexPrefix callGasLimit,
           u_verificationGasLimit = ensureHexPrefix verificationGasLimit,
           u_preVerificationGas = preVerificationGas packed,
           u_maxFeePerGas = ensureHexPrefix maxFeePerGas,
           u_maxPriorityFeePerGas = ensureHexPrefix maxPriorityFeePerGas,
           u_paymaster = None,
           u_paymasterVerificationGasLimit = None,
           u_paymasterPostOpGasLimit = None,
           u_paymasterData = None,
           u_signature = signature packed \<rparr>)"

section \<open>SignerBackend\<close>

text \<open>A number inside a template string: \<^verbatim>\<open>`${n}`\<close> for a non-negative integer.\<close>

definition decDigit :: "nat \<Rightarrow> char" where
  "decDigit d = ''0123456789'' ! (d mod 10)"

function toString10 :: "nat \<Rightarrow> string" where
  "toString10 n = (if n < 10 then [decDigit n] else toString10 (n div 10) @ [decDigit (n mod 10)])"
  by pat_completeness auto
termination
  by (relation "measure id") auto

declare toString10.simps [simp del]

subsection \<open>The in-memory-seed signer of the wallet\<close>

record MLDSAKeypair =
  kp_publicKey :: bytes
  kp_secretKey :: bytes

text \<open>
  \<^verbatim>\<open>cachedKeypair\<close> is the module's state: \<open>None\<close> until a seed is loaded.
  \<^verbatim>\<open>ml_dsa65.sign\<close> belongs to the signature library; it is the argument
  \<open>ml_dsa65_sign\<close>, called as \<^verbatim>\<open>sign(msg, secretKey)\<close>.
\<close>

definition getKeypair :: "MLDSAKeypair option \<Rightarrow> error + MLDSAKeypair" where
  "getKeypair cachedKeypair =
     (case cachedKeypair of
        None \<Rightarrow> Inl (Error ''Signer not initialized. Load a 32-byte ML-DSA seed first.'')
      | Some kp \<Rightarrow> Inr kp)"

definition signUserOpHash ::
  "(bytes \<Rightarrow> bytes \<Rightarrow> error + bytes) \<Rightarrow> MLDSAKeypair option \<Rightarrow> bytes \<Rightarrow> error + bytes" where
  "signUserOpHash ml_dsa65_sign cachedKeypair hash =
     (case getKeypair cachedKeypair of
        Inl e \<Rightarrow> Inl e
      | Inr kp \<Rightarrow> ml_dsa65_sign hash (kp_secretKey kp))"

subsection \<open>The remote-plugin signer of the wallet\<close>

text \<open>
  The request that reaches the plugin and its answer. \<open>rs_signature = None\<close> stands for
  a missing or non-string \<^verbatim>\<open>signature\<close> field. The provider
  (\<^verbatim>\<open>window.ethereum\<close>) is a function that answers or throws, or is absent.
  \<^verbatim>\<open>signViaSnap\<close> returns the requests it has sent together with its result.
\<close>

record SnapRequest =
  rq_method :: string
  rq_userOpHash :: string
  rq_chainId :: "int option"

record SnapSignatureResponse =
  rs_signature :: "string option"
  rs_nonce :: nat

type_synonym EthereumProvider = "SnapRequest \<Rightarrow> error + SnapSignatureResponse"

definition signViaSnap ::
  "int option \<Rightarrow> EthereumProvider option \<Rightarrow> bytes \<Rightarrow> SnapRequest list \<times> (error + bytes)" where
  "signViaSnap CHAIN_ID ethereum hash =
     (if length hash \<noteq> 32
      then ([], Inl (Error (''Expected 32-byte UserOp hash, got '' @ toString10 (length hash))))
      else
        let params = \<lparr> rq_method = ''pq_signUserOp'',
                        rq_userOpHash = bytesToHex hash,
                        rq_chainId = (case CHAIN_ID of
                                        None \<Rightarrow> None
                                      | Some c \<Rightarrow> if c > 0 then Some c else None) \<rparr>
        in case ethereum of
             None \<Rightarrow>
               ([], Inl (Error ''MetaMask not detected. Install MetaMask Flask to use Snap mode.''))
           | Some provider \<Rightarrow>
               (case provider params of
                  Inl e \<Rightarrow> ([params], Inl e)
                | Inr response \<Rightarrow>
                    (case rs_signature response of
                       None \<Rightarrow> ([params], Inl (Error ''Snap returned an invalid signature''))
                     | Some sig \<Rightarrow>
                         if sig = [] then ([params], Inl (Error ''Snap returned an invalid signature''))
                         else ([params], hexToBytesStrict sig))))"

subsection \<open>The plugin's crypto module\<close>

datatype SecurityLevel = ml_dsa44 | ml_dsa65 | ml_dsa87

record KeySizes =
  publicKey_size :: nat
  secretKey_size :: nat
  signature_size :: nat

fun KEY_SIZES :: "SecurityLevel \<Rightarrow> KeySizes" where
  "KEY_SIZES ml_dsa44 = \<lparr> publicKey_size = 1312, secretKey_size = 2560, signature_size = 2420 \<rparr>"
| "KEY_SIZES ml_dsa65 = \<lparr> publicKey_size = 1952, secretKey_size = 4032, signature_size = 3309 \<rparr>"
| "KEY_SIZES ml_dsa87 = \<lparr> publicKey_size = 2592, secretKey_size = 4896, signature_size = 4627 \<rparr>"

text \<open>
  \<^verbatim>\<open>ALGORITHMS[level]\<close> is the signature library: \<open>algo_sign level msg sk\<close> and
  \<open>algo_verify level sig msg pk\<close> are arguments, each returning a value or throwing.
\<close>

definition sign ::
  "(SecurityLevel \<Rightarrow> bytes \<Rightarrow> bytes \<Rightarrow> error + bytes) \<Rightarrow> bytes \<Rightarrow> bytes \<Rightarrow> SecurityLevel \<Rightarrow> error + bytes" where
  "sign algo_sign secretKey message level =
     (let expectedSize = secretKey_size (KEY_SIZES level) in
      if length secretKey \<noteq> expectedSize
      then Inl (Error (''Invalid secret key size: '' @ toString10 (length secretKey)
                        @ '', expected '' @ toString10 expectedSize))
      else algo_sign level message secretKey)"

definition signUserOp ::
  "(SecurityLevel \<Rightarrow> bytes \<Rightarrow> bytes \<Rightarrow> error + bytes) \<Rightarrow> bytes \<Rightarrow> bytes \<Rightarrow> SecurityLevel \<Rightarrow> error + bytes" where
  "signUserOp algo_sign secretKey userOpHash level =
     (if length userOpHash \<noteq> 32
      then Inl (Error (''UserOp hash must be 32 bytes, got '' @ toString10 (length userOpHash)))
      else sign algo_sign secretKey userOpHash level)"


section \<open>RelayClient and the operation lifecycle\<close>

text \<open>
  The relay's JSON-RPC answer: \<open>rpc_error = None\<close> when the \<^verbatim>\<open>error\<close> member is
  absent (or falsy); otherwise it carries the \<^verbatim>\<open>message\<close> member, \<open>None\<close> when that is
  undefined. The transport (\<^verbatim>\<open>fetch\<close> and \<^verbatim>\<open>response.json()\<close>) is the argument
  \<open>bundler\<close>: it answers or throws.
\<close>

record RpcError =
  rpc_message :: "string option"

record RpcResult =
  rpc_error :: "RpcError option"
  rpc_result :: string

type_synonym Bundler = "UnpackedUserOp \<Rightarrow> string \<Rightarrow> error + RpcResult"

definition submitUserOp :: "Bundler \<Rightarrow> string \<Rightarrow> PackedUserOp \<Rightarrow> error + string" where
  "submitUserOp bundler ENTRYPOINT userOp =
     (let unpackedOp = unpackUserOp userOp in
      case bundler unpackedOp ENTRYPOINT of
        Inl e \<Rightarrow> Inl e
      | Inr result \<Rightarrow>
          (case rpc_error result of
             Some err \<Rightarrow>
               Inl (Error (''Bundler error: '' @
                 (case rpc_message err of None \<Rightarrow> ''undefined'' | Some m \<Rightarrow> m)))
           | None \<Rightarrow> Inr (rpc_result result)))"

record Receipt =
  txHash :: string
  gasUsed :: string

record PendingTx =
  tx_id :: nat
  tx_topic :: string
  tx_to :: string
  tx_value :: string
  tx_data :: string

datatype TxStatus = idle | building | signing | submitting | waiting | confirmed | error

datatype SignerMode = seed | snap

text \<open>What the wallet sends back to the session: a result, or a rejection with code and message.\<close>

datatype SessionResponse = Result string | Rejection int string

text \<open>The operations outside the component that \<^verbatim>\<open>handleApprove\<close> invokes, in order.\<close>

datatype call = BuildUserOp | GetSnapInfo | SubmitUserOp | WaitForReceipt | RespondSessionRequest

text \<open>
  The state \<^verbatim>\<open>handleApprove\<close> writes: the React state \<^verbatim>\<open>txStatus\<close>, \<^verbatim>\<open>txError\<close>
  and \<^verbatim>\<open>log\<close> (entries as type and message), the responses handed to
  \<^verbatim>\<open>respondSessionRequest\<close> (topic, request id, response), and the trace of calls.
\<close>

record App =
  txStatus :: TxStatus
  txError :: "string option"
  log :: "(string \<times> string) list"
  responses :: "(string \<times> nat \<times> SessionResponse) list"
  calls :: "call list"

text \<open>
  What \<^verbatim>\<open>handleApprove\<close> reads and the outcomes of the operations it awaits:
  \<^verbatim>\<open>buildUserOp\<close> (building, nonce query and signing), the relay transport,
  \<^verbatim>\<open>waitForReceipt\<close> (the polling loop against the wall clock, taken as a whole) and
  \<^verbatim>\<open>respondSessionRequest\<close> (\<open>None\<close> when it resolves, the error when it rejects).
\<close>

record Env =
  wk :: bool
  pendingTx :: "PendingTx option"
  signerReady :: bool
  signerMode :: SignerMode
  ENTRYPOINT :: string
  buildUserOp :: "PendingTx \<Rightarrow> SignerMode \<Rightarrow> error + PackedUserOp"
  bundler :: Bundler
  waitForReceipt :: "string \<Rightarrow> error + Receipt"
  respondSessionRequest :: "SessionResponse \<Rightarrow> error option"

definition addLog :: "string \<Rightarrow> string \<Rightarrow> App \<Rightarrow> App" where
  "addLog type message st = st\<lparr>log := log st @ [(type, message)]\<rparr>"

definition called :: "call \<Rightarrow> App \<Rightarrow> App" where
  "called c st = st\<lparr>calls := calls st @ [c]\<rparr>"

definition respond :: "PendingTx \<Rightarrow> SessionResponse \<Rightarrow> App \<Rightarrow> App" where
  "respond tx r st =
     called RespondSessionRequest (st\<lparr>responses := responses st @ [(tx_topic tx, tx_id tx, r)]\<rparr>)"

text \<open>\<^verbatim>\<open>err?.message || String(err)\<close> for a thrown \<^verbatim>\<open>Error\<close>.\<close>

definition errMessage :: "error \<Rightarrow> string" where
  "errMessage e = (case e of Error m \<Rightarrow> if m = [] then ''Error'' else m)"

text \<open>The \<^verbatim>\<open>catch\<close> block; a failure of its own response is swallowed.\<close>

definition catchBlock :: "Env \<Rightarrow> App \<Rightarrow> error \<Rightarrow> App" where
  "catchBlock env st err =
     (let msg = errMessage err;
          st1 = addLog ''error'' (''Failed: '' @ msg) (st\<lparr>txStatus := error, txError := Some msg\<rparr>)
      in case (wk env, pendingTx env) of
           (True, Some tx) \<Rightarrow> respond tx (Rejection (- 32000) msg) st1
         | _ \<Rightarrow> st1)"

definition handleApprove :: "Env \<Rightarrow> App \<Rightarrow> App" where
  "handleApprove env st =
     (case (wk env, pendingTx env) of
        (True, Some tx) \<Rightarrow>
          if \<not> signerReady env then
            addLog ''error''
              (if signerMode env = seed then ''Signer not ready: load ML-DSA seed first''
               else ''Signer not ready: connect MetaMask Snap first'') st
          else
            let st1 = addLog ''info'' ''Building UserOp...'' (st\<lparr>txStatus := building\<rparr>);
                signerLabel = (if signerMode env = snap then ''MetaMask Snap'' else ''in-memory seed'');
                st2 = called BuildUserOp st1
            in case buildUserOp env tx (signerMode env) of
                 Inl e \<Rightarrow> catchBlock env st2 e
               | Inr userOp \<Rightarrow>
                   let st3 = (if signerMode env = snap then called GetSnapInfo st2 else st2);
                       st4 = addLog ''success''
                               (''UserOp built & signed via '' @ signerLabel @ '' (sig: ''
                                  @ take 20 (signature userOp) @ ''...)'')
                               (st3\<lparr>txStatus := signing\<rparr>);
                       st5 = addLog ''info'' ''Submitting to Alto bundler...''
                               (st4\<lparr>txStatus := submitting\<rparr>);
                       st6 = called SubmitUserOp st5
                   in case submitUserOp (bundler env) (ENTRYPOINT env) userOp of
                        Inl e \<Rightarrow> catchBlock env st6 e
                      | Inr opHash \<Rightarrow>
                          let st7 = addLog ''success'' (''Bundler accepted: '' @ opHash) st6;
                              st8 = addLog ''info'' ''Waiting for on-chain confirmation...''
                                      (st7\<lparr>txStatus := waiting\<rparr>);
                              st9 = called WaitForReceipt st8
                          in case waitForReceipt env opHash of
                               Inl e \<Rightarrow> catchBlock env st9 e
                             | Inr receipt \<Rightarrow>
                                 let st10 = addLog ''success''
                                              (''Confirmed! TX: '' @ txHash receipt @ '' (gas: ''
                                                 @ gasUsed receipt @ '')'')
                                              (st9\<lparr>txStatus := confirmed\<rparr>);
                                     st11 = respond tx (Result (txHash receipt)) st10
                                 in case respondSessionRequest env (Result (txHash receipt)) of
                                      Some e \<Rightarrow> catchBlock env st11 e
                                    | None \<Rightarrow> addLog ''success'' ''TX hash sent back to dapp'' st11
      | _ \<Rightarrow> st)"

section \<open>OnChainValidator\<close>

text \<open>
  The Solidity contract \<^verbatim>\<open>PQValidatorModule\<close>. Addresses are 160-bit words,
  \<^verbatim>\<open>uint256\<close> and \<^verbatim>\<open>bytes32\<close> 256-bit words, \<^verbatim>\<open>bytes4\<close> a 32-bit word. The
  storage of the contract is the mapping \<^verbatim>\<open>publicKeys\<close> (a key that was never written
  is empty). A transaction that reverts is \<open>None\<close>. \<^verbatim>\<open>keccak256\<close> and the external
  verifier contract are arguments; the verifier answers or reverts.
\<close>

type_synonym address = "160 word"
type_synonym bytes32 = "256 word"
type_synonym uint256 = "256 word"
type_synonym bytes4 = "32 word"

record Storage =
  publicKeys :: "address \<Rightarrow> bytes"

record Context =
  this :: address
  chainid :: uint256
  msg_sender :: address

definition ERC1271_VALID :: bytes4 where "ERC1271_VALID = 0x1626ba7e"
definition ERC1271_INVALID :: bytes4 where "ERC1271_INVALID = 0xffffffff"

text \<open>The big-endian bytes of a word, as \<^verbatim>\<open>abi.encodePacked\<close> lays out a value of \<open>n\<close> bytes.\<close>

definition toBytesBE :: "nat \<Rightarrow> 'a::len word \<Rightarrow> bytes" where
  "toBytesBE n w = map (\<lambda>i. ucast (drop_bit (8 * (n - 1 - i)) w)) [0..<n]"

datatype packed_value = PAddress address | PUint256 uint256 | PBytes32 bytes32

fun encodePackedValue :: "packed_value \<Rightarrow> bytes" where
  "encodePackedValue (PAddress a) = toBytesBE 20 a"
| "encodePackedValue (PUint256 n) = toBytesBE 32 n"
| "encodePackedValue (PBytes32 h) = toBytesBE 32 h"

definition encodePacked :: "packed_value list \<Rightarrow> bytes" where
  "encodePacked vs = concat (map encodePackedValue vs)"

definition isInitialized :: "Storage \<Rightarrow> address \<Rightarrow> bool" where
  "isInitialized st smartAccount = (length (publicKeys st smartAccount) > 0)"

definition onInstall :: "Context \<Rightarrow> Storage \<Rightarrow> bytes \<Rightarrow> Storage option" where
  "onInstall ctx st data' =
     (if isInitialized st (msg_sender ctx) then None
      else if length data' \<noteq> 1952 then None
      else Some (st\<lparr>publicKeys := (publicKeys st)(msg_sender ctx := data')\<rparr>))"

definition isValidSignatureWithSender ::
  "(bytes \<Rightarrow> bytes32) \<Rightarrow> (bytes \<Rightarrow> bytes32 \<Rightarrow> bytes \<Rightarrow> bool option) \<Rightarrow>
   Context \<Rightarrow> Storage \<Rightarrow> address \<Rightarrow> bytes32 \<Rightarrow> bytes \<Rightarrow> bytes4 option" where
  "isValidSignatureWithSender keccak256 verifier ctx st sender' hash signature' =
     (if \<not> isInitialized st (msg_sender ctx) then Some ERC1271_INVALID
      else
        let mlDSAPubKey = publicKeys st (msg_sender ctx);
            senderBoundHash = keccak256 (encodePacked
              [PAddress (this ctx), PUint256 (chainid ctx), PAddress (msg_sender ctx),
               PAddress sender', PBytes32 hash])
        in case verifier mlDSAPubKey senderBoundHash signature' of
             None \<Rightarrow> None
           | Some isVerified \<Rightarrow> Some (if isVerified then ERC1271_VALID else ERC1271_INVALID))"

text \<open>
  The re-derived hash in the words of the specification: the hash of the validator
  contract's address, the chain id, the account's address, the caller's address and the
  original hash, packed in this order.
\<close>

definition senderBoundHash_spec ::
  "(bytes \<Rightarrow> bytes32) \<Rightarrow> address \<Rightarrow> uint256 \<Rightarrow> address \<Rightarrow> address \<Rightarrow> bytes32 \<Rightarrow> bytes32" where
  "senderBoundHash_spec keccak256 validatorContractAddress chainId accountAddress callerAddress originalHash =
     keccak256 (toBytesBE 20 validatorContractAddress @ toBytesBE 32 chainId
                @ toBytesBE 20 accountAddress @ toBytesBE 20 callerAddress
                @ toBytesBE 32 originalHash)"

section \<open>OperationCodec: the operation hash\<close>

text \<open>
  \<^verbatim>\<open>computeUserOpHash\<close> calls the library viem and the built-in \<^verbatim>\<open>BigInt\<close>, which are
  not part of the repository. They are modelled here as they behave on strings and
  integers. The hash function itself (\<^verbatim>\<open>keccak_256\<close> on bytes) is an argument.
\<close>

definition bindE :: "error + 'a \<Rightarrow> ('a \<Rightarrow> error + 'b) \<Rightarrow> error + 'b" where
  "bindE r f = (case r of Inl e \<Rightarrow> Inl e | Inr x \<Rightarrow> f x)"

text \<open>
  The library's \<^verbatim>\<open>hexToBytes\<close>: the prefix is cut off, an odd number of digits gets a
  leading \<^verbatim>\<open>0\<close>, each pair of hex digits is a byte, any other character throws.
\<close>

definition charCodeToBase16 :: "char \<Rightarrow> nat option" where
  "charCodeToBase16 c = (if isHexChar c then Some (hexCharValue c) else None)"

fun decodeNibbles :: "string \<Rightarrow> error + bytes" where
  "decodeNibbles (a # b # rest) =
     (case (charCodeToBase16 a, charCodeToBase16 b) of
        (Some l, Some r) \<Rightarrow>
          (case decodeNibbles rest of
             Inl e \<Rightarrow> Inl e
           | Inr bs \<Rightarrow> Inr (of_nat (l * 16 + r) # bs))
      | _ \<Rightarrow> Inl (Error ''Invalid byte sequence''))"
| "decodeNibbles _ = Inr []"

definition viem_hexToBytes :: "string \<Rightarrow> error + bytes" where
  "viem_hexToBytes hex =
     (let hexString = drop 2 hex in
      decodeNibbles (if length hexString mod 2 \<noteq> 0 then CHR ''0'' # hexString else hexString))"

text \<open>
  \<^verbatim>\<open>keccak256(value)\<close> on a string, with the digest returned as a hex string. A strict
  hex string (\<^verbatim>\<open>0x\<close> and hex digits only) is hashed as the bytes it denotes; any other
  string is hashed as its UTF-8 text. A code unit below 128 is one byte of UTF-8, one from
  128 to 255 is two.
\<close>

definition isHexStrict :: "string \<Rightarrow> bool" where
  "isHexStrict v = (startsWith0x v \<and> list_all isHexChar (drop 2 v))"

definition stringToBytes :: "string \<Rightarrow> bytes" where
  "stringToBytes s =
     concat (map (\<lambda>c. let k = of_char c :: nat in
                        if k < 128 then [of_nat k]
                        else [of_nat (192 + k div 64), of_nat (128 + k mod 64)]) s)"

definition keccak256_hex :: "(bytes \<Rightarrow> bytes) \<Rightarrow> string \<Rightarrow> error + string" where
  "keccak256_hex keccak_256 v =
     (if isHexStrict v
      then bindE (viem_hexToBytes v) (\<lambda>bs. Inr (bytesToHex (keccak_256 bs)))
      else Inr (bytesToHex (keccak_256 (stringToBytes v))))"

text \<open>
  \<^verbatim>\<open>BigInt(s)\<close> on a string: white space is trimmed, the empty string is 0, a literal
  with prefix \<^verbatim>\<open>0x\<close>, \<^verbatim>\<open>0o\<close> or \<^verbatim>\<open>0b\<close> is read in its radix, anything else as a
  signed decimal; a malformed string throws. \<^verbatim>\<open>BigInt(n)\<close> on a number throws for
  \<^verbatim>\<open>NaN\<close> (\<open>None\<close>).
\<close>

definition isDigitOf :: "nat \<Rightarrow> char \<Rightarrow> bool" where
  "isDigitOf radix c = (isHexChar c \<and> hexCharValue c < radix)"

definition digitsValue :: "nat \<Rightarrow> string \<Rightarrow> nat" where
  "digitsValue radix s = foldl (\<lambda>acc c. radix * acc + hexCharValue c) 0 s"

definition integerLiteral :: "nat \<Rightarrow> string \<Rightarrow> error + int" where
  "integerLiteral radix ds =
     (if ds \<noteq> [] \<and> list_all (isDigitOf radix) ds then Inr (int (digitsValue radix ds))
      else Inl (Error ''SyntaxError: Cannot convert to a BigInt''))"

definition BigInt :: "string \<Rightarrow> error + int" where
  "BigInt s =
     (let t = rev (dropWhile isJsWhiteSpace (rev (dropWhile isJsWhiteSpace s))) in
      if t = [] then Inr 0
      else if take 2 t = ''0x'' \<or> take 2 t = ''0X'' then integerLiteral 16 (drop 2 t)
      else if take 2 t = ''0o'' \<or> take 2 t = ''0O'' then integerLiteral 8 (drop 2 t)
      else if take 2 t = ''0b'' \<or> take 2 t = ''0B'' then integerLiteral 2 (drop 2 t)
      else if take 1 t = ''-'' then bindE (integerLiteral 10 (drop 1 t)) (\<lambda>n. Inr (- n))
      else if take 1 t = ''+'' then integerLiteral 10 (drop 1 t)
      else integerLiteral 10 t)"

definition BigInt_of_number :: "int option \<Rightarrow> error + int" where
  "BigInt_of_number n =
     (case n of None \<Rightarrow> Inl (Error ''RangeError: not an integer'') | Some k \<Rightarrow> Inr k)"

text \<open>
  \<^verbatim>\<open>isAddress\<close>: \<^verbatim>\<open>0x\<close> and 40 hex digits; an address that is not all lowercase
  must equal its checksummed form, which puts a digit in upper case where the matching
  nibble of the hash of the lowercase digits is 8 or more.
\<close>

definition toLowerChar :: "char \<Rightarrow> char" where
  "toLowerChar c =
     (case map_of (zip ''ABCDEFGHIJKLMNOPQRSTUVWXYZ'' ''abcdefghijklmnopqrstuvwxyz'') c of
        Some l \<Rightarrow> l
      | None \<Rightarrow> c)"

definition toUpperChar :: "char \<Rightarrow> char" where
  "toUpperChar c =
     (case map_of (zip ''abcdefghijklmnopqrstuvwxyz'' ''ABCDEFGHIJKLMNOPQRSTUVWXYZ'') c of
        Some u \<Rightarrow> u
      | None \<Rightarrow> c)"

definition nibbleAt :: "bytes \<Rightarrow> nat \<Rightarrow> nat" where
  "nibbleAt hash i =
     (if i div 2 < length hash
      then (if i mod 2 = 0 then unat (hash ! (i div 2)) div 16 else unat (hash ! (i div 2)) mod 16)
      else 0)"

definition checksumAddress :: "(bytes \<Rightarrow> bytes) \<Rightarrow> string \<Rightarrow> string" where
  "checksumAddress keccak_256 a =
     (let hexAddress = map toLowerChar (drop 2 a);
          hash = keccak_256 (map (\<lambda>c. of_nat (of_char c)) hexAddress)
      in ''0x'' @ map (\<lambda>(i, c). if i < 40 \<and> 8 \<le> nibbleAt hash i then toUpperChar c else c)
                     (enumerate 0 hexAddress))"

definition isAddress :: "(bytes \<Rightarrow> bytes) \<Rightarrow> string \<Rightarrow> bool" where
  "isAddress keccak_256 a =
     (if \<not> (startsWith0x a \<and> length a = 42 \<and> list_all isHexChar (drop 2 a)) then False
      else if map toLowerChar a = a then True
      else checksumAddress keccak_256 a = a)"

text \<open>
  \<^verbatim>\<open>encodeAbiParameters\<close> for the static types the source uses. Every value takes one
  word of 64 hex digits: an address in lower case and a \<^verbatim>\<open>uint256\<close> padded on the left, a
  \<^verbatim>\<open>bytes32\<close> (whose size must be 32: half the digits behind \<^verbatim>\<open>0x\<close>, rounded up,
  or the length of a string without the prefix) padded on the right. The words are joined
  behind one \<^verbatim>\<open>0x\<close>.
\<close>

datatype abi_value = AbiAddress string | AbiUint256 int | AbiBytes32 string

definition padEnd :: "nat \<Rightarrow> char \<Rightarrow> string \<Rightarrow> string" where
  "padEnd n c s = s @ replicate (n - length s) c"

fun encodeAbiValue :: "(bytes \<Rightarrow> bytes) \<Rightarrow> abi_value \<Rightarrow> error + string" where
  "encodeAbiValue keccak_256 (AbiAddress a) =
     (if \<not> isAddress keccak_256 a then Inl (Error ''InvalidAddressError'')
      else Inr (padStart 64 (CHR ''0'') (removeFirst0x (map toLowerChar a))))"
| "encodeAbiValue keccak_256 (AbiUint256 n) =
     (if n > 2 ^ 256 - 1 \<or> n < 0 then Inl (Error ''IntegerOutOfRangeError'')
      else Inr (padStart 64 (CHR ''0'') (toString16 (nat n))))"
| "encodeAbiValue keccak_256 (AbiBytes32 v) =
     (let bytesSize = (if startsWith0x v then (length v - 2 + 1) div 2 else length v) in
      if bytesSize \<noteq> 32 then Inl (Error ''AbiEncodingBytesSizeMismatchError'')
      else Inr (padEnd 64 (CHR ''0'') (removeFirst0x v)))"

fun encodeAbiWords :: "(bytes \<Rightarrow> bytes) \<Rightarrow> abi_value list \<Rightarrow> error + string" where
  "encodeAbiWords keccak_256 [] = Inr []"
| "encodeAbiWords keccak_256 (v # vs) =
     bindE (encodeAbiValue keccak_256 v) (\<lambda>w.
     bindE (encodeAbiWords keccak_256 vs) (\<lambda>ws. Inr (w @ ws)))"

definition encodeAbiParameters :: "(bytes \<Rightarrow> bytes) \<Rightarrow> abi_value list \<Rightarrow> error + string" where
  "encodeAbiParameters keccak_256 vs =
     bindE (encodeAbiWords keccak_256 vs) (\<lambda>ws. Inr (''0x'' @ ws))"

text \<open>
  \<^verbatim>\<open>computeUserOpHash\<close>. The module constants \<^verbatim>\<open>ENTRYPOINT\<close> and \<^verbatim>\<open>CHAIN_ID\<close>
  (the latter the result of \<^verbatim>\<open>parseInt\<close>, \<open>None\<close> for \<^verbatim>\<open>NaN\<close>) are arguments.
\<close>

definition computeUserOpHash ::
  "(bytes \<Rightarrow> bytes) \<Rightarrow> string \<Rightarrow> int option \<Rightarrow> PackedUserOp \<Rightarrow> error + string" where
  "computeUserOpHash keccak_256 ENTRYPOINT' CHAIN_ID op =
     bindE (BigInt (nonce op)) (\<lambda>nonce'.
     bindE (keccak256_hex keccak_256 (initCode op)) (\<lambda>initCodeHash.
     bindE (keccak256_hex keccak_256 (callData op)) (\<lambda>callDataHash.
     bindE (BigInt (preVerificationGas op)) (\<lambda>preVerificationGas'.
     bindE (keccak256_hex keccak_256 (paymasterAndData op)) (\<lambda>paymasterAndDataHash.
     bindE (encodeAbiParameters keccak_256
              [AbiAddress (sender op), AbiUint256 nonce', AbiBytes32 initCodeHash,
               AbiBytes32 callDataHash, AbiBytes32 (accountGasLimits op),
               AbiUint256 preVerificationGas', AbiBytes32 (gasFees op),
               AbiBytes32 paymasterAndDataHash]) (\<lambda>packed.
     bindE (keccak256_hex keccak_256 packed) (\<lambda>packedHash.
     bindE (BigInt_of_number CHAIN_ID) (\<lambda>chainId.
     bindE (encodeAbiParameters keccak_256
              [AbiBytes32 packedHash, AbiAddress ENTRYPOINT', AbiUint256 chainId]) (\<lambda>final.
     keccak256_hex keccak_256 final)))))))))"

text \<open>
  The two-stage construction in the words of the specification, on decoded values: a 20-byte
  address and a number each fill one 32-byte word of the tuple (left-padded, big-endian).
  Stage (a) hashes each variable-length field on its own, joins the hashes with the fixed
  fields into one tuple and hashes it; stage (b) hashes the result together with the
  validating authority's address and the chain id.
\<close>

fun be_bytes :: "nat \<Rightarrow> nat \<Rightarrow> bytes" where
  "be_bytes 0 n = []"
| "be_bytes (Suc k) n = be_bytes k (n div 256) @ [of_nat (n mod 256)]"

text \<open>The last \<open>k\<close> hex digits of a number, most significant first.\<close>

fun hexFixed :: "nat \<Rightarrow> nat \<Rightarrow> string" where
  "hexFixed 0 n = []"
| "hexFixed (Suc k) n = hexFixed k (n div 16) @ [hexDigit (n mod 16)]"

definition addressWord :: "bytes \<Rightarrow> bytes" where
  "addressWord a = replicate (32 - length a) 0 @ a"

definition uintWord :: "nat \<Rightarrow> bytes" where
  "uintWord n = be_bytes 32 n"

definition stageA ::
  "(bytes \<Rightarrow> bytes) \<Rightarrow> bytes \<Rightarrow> nat \<Rightarrow> bytes \<Rightarrow> bytes \<Rightarrow> bytes \<Rightarrow> nat \<Rightarrow> bytes \<Rightarrow> bytes \<Rightarrow> bytes" where
  "stageA h senderA nonceN initCodeB callDataB accountGasLimitsB preVerificationGasN gasFeesB paymasterAndDataB =
     h (addressWord senderA @ uintWord nonceN @ h initCodeB @ h callDataB @ accountGasLimitsB
        @ uintWord preVerificationGasN @ gasFeesB @ h paymasterAndDataB)"

definition stageB :: "(bytes \<Rightarrow> bytes) \<Rightarrow> bytes \<Rightarrow> bytes \<Rightarrow> nat \<Rightarrow> bytes" where
  "stageB h intermediate validatorAddress chainId =
     h (intermediate @ addressWord validatorAddress @ uintWord chainId)"

section \<open>Sample values\<close>

text \<open>Concrete inputs at which the theorems below are instantiated.\<close>

definition sample_op :: PackedUserOp where
  "sample_op =
     \<lparr> sender = ''0x1234567890abcdef1234567890abcdef12345678'',
       nonce = ''0x0'',
       initCode = ''0x'',
       callData = ''0xe9ae5c53'',
       accountGasLimits = ''0x000000000000000000000000001e8480000000000000000000000000000186a0'',
       preVerificationGas = ''0x186a0'',
       gasFees = ''0x0000000000000000000000003b9aca00000000000000000000000002540be400'',
       paymasterAndData = ''0x'',
       signature = ''0xc0ffee'' \<rparr>"

definition sample_tx :: PendingTx where
  "sample_tx = \<lparr> tx_id = 7, tx_topic = ''topic-1'',
                 tx_to = ''0x1111111111111111111111111111111111111111'',
                 tx_value = ''1000000000000000'', tx_data = ''0x'' \<rparr>"

definition rejecting_env :: Env where
  "rejecting_env =
     \<lparr> wk = True, pendingTx = Some sample_tx, signerReady = True, signerMode = seed,
       ENTRYPOINT = ''0x0000000071727de22e5e9d8baf0edac6f37da032'',
       buildUserOp = (\<lambda>tx m. Inr sample_op),
       bundler = (\<lambda>u e. Inr \<lparr> rpc_error = Some \<lparr> rpc_message = Some ''AA21 did not pay prefund'' \<rparr>,
                              rpc_result = [] \<rparr>),
       waitForReceipt = (\<lambda>h. Inr \<lparr> txHash = ''0xabc'', gasUsed = ''0x5208'' \<rparr>),
       respondSessionRequest = (\<lambda>r. None) \<rparr>"


text \<open>A relay that accepts every operation.\<close>

definition accepting_bundler :: Bundler where
  "accepting_bundler u e = Inr \<lparr> rpc_error = None, rpc_result = ''0xfeed'' \<rparr>"

definition idle_app :: App where
  "idle_app = \<lparr> txStatus = idle, txError = None, log = [], responses = [], calls = [] \<rparr>"

text \<open>A stand-in for the hash function with 32-byte digests: the length of the input,
  big-endian.\<close>

definition toy_hash :: "bytes \<Rightarrow> bytes" where
  "toy_hash bs = replicate 30 0 @ [of_nat (length bs div 256), of_nat (length bs)]"

definition sample_ctx :: Context where
  "sample_ctx = \<lparr> this = 0x1000, chainid = 412346, msg_sender = 0xacc0 \<rparr>"

definition installed_storage :: Storage where
  "installed_storage = \<lparr> publicKeys = (\<lambda>a. [])(0xacc0 := replicate 1952 1) \<rparr>"

text \<open>A stand-in hash that keeps only the length of its input, and a verifier that accepts
  exactly the hash of a 124-byte input under a 1952-byte key.\<close>

definition length_hash :: "bytes \<Rightarrow> bytes32" where
  "length_hash bs = of_nat (length bs)"

definition length_verifier :: "bytes \<Rightarrow> bytes32 \<Rightarrow> bytes \<Rightarrow> bool option" where
  "length_verifier pk h s = Some (h = 124 \<and> length pk = 1952)"

section \<open>HexCodec: proofs\<close>

lemma nibble_cases:
  assumes "d < (16::nat)"
  shows "d \<in> {0,1,2,3,4,5,6,7,8,9,10,11,12,13,14,15}"
  using assms by simp arith

lemma hexDigit_props:
  assumes "d < 16"
  shows "isHexChar (hexDigit d)" and "hexCharValue (hexDigit d) = d"
    and "\<not> isJsWhiteSpace (hexDigit d)" and "hexDigit d \<noteq> CHR ''-''"
    and "hexDigit d \<noteq> CHR ''+''" and "hexDigit d \<noteq> CHR ''x''" and "hexDigit d \<noteq> CHR ''X''"
  using nibble_cases [OF assms]
  by (auto simp: hexDigit_def isHexChar_def hexCharValue_def isJsWhiteSpace_def)

lemma hexDigit_zero_iff: "d < 16 \<Longrightarrow> (hexDigit d = CHR ''0'') = (d = 0)"
proof -
  assume "d < 16"
  then have "d \<in> {0,1,2,3,4,5,6,7,8,9,10,11,12,13,14,15}" by (rule nibble_cases)
  then show ?thesis by (auto simp: hexDigit_def)
qed

lemma toString16_small: "n < 16 \<Longrightarrow> toString16 n = [hexDigit n]"
  by (simp add: toString16.simps)

lemma toString16_step: "16 \<le> n \<Longrightarrow> toString16 n = toString16 (n div 16) @ [hexDigit (n mod 16)]"
  by (subst toString16.simps) simp

lemma toString16_zero: "toString16 0 = ''0''"
  by (simp add: toString16_small hexDigit_def)

lemma toString16_nonempty: "toString16 n \<noteq> []"
  by (cases "n < 16") (simp_all add: toString16_small toString16_step)

lemma byte_bound: "unat (b :: 8 word) < 256"
  using unsigned_less [of b, where ?'a = nat] by simp

lemma byteToHex_digits:
  "byteToHex b = [hexDigit (unat b div 16), hexDigit (unat b mod 16)]"
proof (cases "unat b < 16")
  case True
  then show ?thesis
    by (simp add: byteToHex_def padStart_def toString16_small hexDigit_def)
next
  case False
  with byte_bound [of b] have "unat b div 16 < 16" by simp
  with False show ?thesis
    by (simp add: byteToHex_def padStart_def toString16_step toString16_small)
qed

lemma parseInt16_two_digits:
  assumes "h < 16" "l < 16"
  shows "parseInt16 [hexDigit h, hexDigit l] = Some (int (16 * h + l))"
  using hexDigit_props [OF assms(1)] hexDigit_props [OF assms(2)]
  by (simp add: parseInt16_def hexDigitsValue_def)

lemma toUint8_uint: "toUint8 (Some (uint b)) = (b :: 8 word)"
  by (simp add: toUint8_def)

lemma parsePairs_encode: "parsePairs (concat (map byteToHex bs)) = bs"
proof (induction bs)
  case Nil
  show ?case by simp
next
  case (Cons b bs)
  from byte_bound [of b] have h: "unat b div 16 < 16" and l: "unat b mod 16 < 16" by simp_all
  show ?case
    using Cons.IH by (simp add: byteToHex_digits parseInt16_two_digits [OF h l] toUint8_uint)
qed

lemma length_encode_even: "length (concat (map byteToHex bs)) mod 2 = 0"
  by (induction bs) (simp_all add: byteToHex_digits)

lemma stripPrefix0x_prefixed: "stripPrefix0x (''0x'' @ s) = s"
  by (simp add: stripPrefix0x_def startsWith0x_def)

lemma hexDigit_lowercase: "d < 16 \<Longrightarrow> hexDigit d \<in> set ''0123456789abcdef''"
proof -
  assume "d < 16"
  then have "d \<in> {0,1,2,3,4,5,6,7,8,9,10,11,12,13,14,15}" by (rule nibble_cases)
  then show ?thesis by (auto simp: hexDigit_def)
qed

lemma lowercase_digits: "list_all (\<lambda>c. c \<in> set ''0123456789abcdef'') (concat (map byteToHex bs))"
proof (induction bs)
  case Nil
  show ?case by simp
next
  case (Cons b bs)
  from byte_bound [of b] have "unat b div 16 < 16" and "unat b mod 16 < 16" by simp_all
  then have "hexDigit (unat b div 16) \<in> set ''0123456789abcdef''"
    and "hexDigit (unat b mod 16) \<in> set ''0123456789abcdef''"
    by (blast intro: hexDigit_lowercase)+
  with Cons.IH show ?case by (simp add: byteToHex_digits)
qed

text \<open>
  C7. Decoding an encoding gives the bytes back: for every byte sequence,
  \<^verbatim>\<open>hexToBytes(bytesToHex(b))\<close> succeeds with \<open>b\<close>; the encoding starts with
  \<^verbatim>\<open>0x\<close> and all its digits are lowercase hex digits.
\<close>

theorem hexToBytes_bytesToHex:
  "hexToBytes (bytesToHex bs) = Inr bs \<and>
   take 2 (bytesToHex bs) = ''0x'' \<and>
   list_all (\<lambda>c. c \<in> set ''0123456789abcdef'') (drop 2 (bytesToHex bs))"
proof -
  have "hexToBytes (bytesToHex bs) = Inr bs"
    unfolding hexToBytes_def bytesToHex_def stripPrefix0x_prefixed
    by (simp add: length_encode_even parsePairs_encode)
  then show ?thesis
    using lowercase_digits [of bs] by (simp add: bytesToHex_def)
qed

text \<open>
  The strict decoder of the wallet fails exactly on an odd number of digits or on a
  character outside \<^verbatim>\<open>[0-9a-fA-F]\<close>, and decodes the empty string and \<^verbatim>\<open>0x\<close> to no bytes.
\<close>

lemma hexToBytesStrict_fails_iff:
  "(\<exists>e. hexToBytesStrict s = Inl e) \<longleftrightarrow>
     (length (stripPrefix0x s) mod 2 \<noteq> 0 \<or> \<not> list_all isHexChar (stripPrefix0x s))"
  by (simp add: hexToBytesStrict_def Let_def)

lemma hexToBytesStrict_empty: "hexToBytesStrict [] = Inr [] \<and> hexToBytesStrict ''0x'' = Inr []"
  by (simp add: hexToBytesStrict_def stripPrefix0x_def startsWith0x_def)

lemma hexToBytes_fails_iff:
  "(\<exists>e. hexToBytes s = Inl e) \<longleftrightarrow> length (stripPrefix0x s) mod 2 \<noteq> 0"
  by (simp add: hexToBytes_def Let_def)

text \<open>
  C6. The decoder fails exactly on an odd length or on a character that is not a hex digit.
  \<^verbatim>\<open>hexToBytesStrict\<close> does so (above). \<^verbatim>\<open>hexToBytes\<close> of the plugin's crypto module
  checks the length only: on \<^verbatim>\<open>0xzz\<close> it does not fail, \<^verbatim>\<open>parseInt\<close> yields
  \<^verbatim>\<open>NaN\<close> and the byte stored is 0.
\<close>

theorem hexToBytes_accepts_non_hex:
  "hexToBytes ''0xzz'' = Inr [0] \<and> hexToBytesStrict ''0xzz'' = Inl (Error ''Hex value contains non-hex characters'')"
  by (simp add: hexToBytes_def hexToBytesStrict_def stripPrefix0x_def startsWith0x_def
      parseInt16_def isHexChar_def isJsWhiteSpace_def toUint8_def)

section \<open>OperationCodec: proofs about the gas fields\<close>

lemma toString16_hd: "0 < n \<Longrightarrow> hd (toString16 n) \<noteq> CHR ''0''"
proof (induction n rule: toString16.induct)
  case (1 n)
  show ?case
  proof (cases "n < 16")
    case True
    with "1.prems" show ?thesis by (simp add: toString16_small hexDigit_zero_iff)
  next
    case False
    then have "0 < n div 16" by simp
    with "1.IH" False have "hd (toString16 (n div 16)) \<noteq> CHR ''0''" by simp
    with False show ?thesis by (simp add: toString16_step toString16_nonempty)
  qed
qed

lemma toString16_length: "n < 16 ^ k \<Longrightarrow> 0 < k \<Longrightarrow> length (toString16 n) \<le> k"
proof (induction n arbitrary: k rule: toString16.induct)
  case (1 n)
  show ?case
  proof (cases "n < 16")
    case True
    with "1.prems" show ?thesis by (simp add: toString16_small)
  next
    case False
    obtain j where k: "k = Suc j" using "1.prems"(2) by (cases k) auto
    have "j \<noteq> 0" using False "1.prems"(1) k by (cases j) auto
    moreover have "n div 16 < 16 ^ j" using "1.prems"(1) k
      by (simp add: less_mult_imp_div_less mult.commute)
    ultimately have "length (toString16 (n div 16)) \<le> j" using "1.IH" False by simp
    with False k show ?thesis by (simp add: toString16_step)
  qed
qed

lemma hexDigitsValue_snoc: "hexDigitsValue (s @ [c]) = 16 * hexDigitsValue s + hexCharValue c"
  by (simp add: hexDigitsValue_def)

lemma hexDigitsValue_toString16: "hexDigitsValue (toString16 n) = n"
proof (induction n rule: toString16.induct)
  case (1 n)
  show ?case
  proof (cases "n < 16")
    case True
    then show ?thesis by (simp add: toString16_small hexDigitsValue_def hexDigit_props(2))
  next
    case False
    with "1.IH" have "hexDigitsValue (toString16 (n div 16)) = n div 16" by simp
    with False show ?thesis
      by (simp add: toString16_step hexDigitsValue_snoc hexDigit_props(2))
  qed
qed

lemma pad_numberToHex:
  assumes "n < 2 ^ 128"
  shows "pad (numberToHex n) 16 = Inr (''0x'' @ padStart 32 (CHR ''0'') (toString16 n))"
proof -
  have "n < 16 ^ 32" using assms by simp
  then have "length (toString16 n) \<le> 32" by (rule toString16_length) simp
  then show ?thesis by (simp add: pad_def numberToHex_def)
qed

lemma length_padStart: "length s \<le> n \<Longrightarrow> length (padStart n c s) = n"
  by (simp add: padStart_def)

lemma stripZeros_padStart:
  "stripZeros (padStart k (CHR ''0'') (toString16 n)) = ''0x'' @ toString16 n"
proof (cases "n = 0")
  case True
  then show ?thesis
    by (simp add: stripZeros_def padStart_def toString16_zero dropWhile_append3)
next
  case False
  then have "hd (toString16 n) \<noteq> CHR ''0''" by (simp add: toString16_hd)
  moreover obtain a as where "toString16 n = a # as"
    using toString16_nonempty [of n] by (cases "toString16 n") auto
  ultimately show ?thesis
    by (simp add: stripZeros_def padStart_def dropWhile_append)
qed

lemma ensureHexPrefix_prefixed:
  "t \<noteq> [] \<Longrightarrow> ensureHexPrefix (CHR ''0'' # CHR ''x'' # t) = CHR ''0'' # CHR ''x'' # t"
  by (auto simp: ensureHexPrefix_def startsWith0x_def)

lemma packPair_value:
  assumes "hi < 2 ^ 128" "lo < 2 ^ 128"
  shows "packPair hi lo =
    Inr (''0x'' @ padStart 32 (CHR ''0'') (toString16 hi) @ padStart 32 (CHR ''0'') (toString16 lo))"
  by (simp add: packPair_def pad_numberToHex [OF assms(1)] pad_numberToHex [OF assms(2)] concatHex_def)

lemma unpack_halves:
  assumes "hi < 2 ^ 128"
  shows "ensureHexPrefix (stripZeros (take 32 (drop 2
           (''0x'' @ padStart 32 (CHR ''0'') (toString16 hi) @ padStart 32 (CHR ''0'') (toString16 lo)))))
         = ''0x'' @ toString16 hi"
    and "ensureHexPrefix (stripZeros (drop 32 (drop 2
           (''0x'' @ padStart 32 (CHR ''0'') (toString16 hi) @ padStart 32 (CHR ''0'') (toString16 lo)))))
         = ''0x'' @ toString16 lo"
proof -
  have "hi < 16 ^ 32" using assms by simp
  then have "length (toString16 hi) \<le> 32" by (rule toString16_length) simp
  then have len: "length (padStart 32 (CHR ''0'') (toString16 hi)) = 32" by (rule length_padStart)
  show "ensureHexPrefix (stripZeros (take 32 (drop 2
           (''0x'' @ padStart 32 (CHR ''0'') (toString16 hi) @ padStart 32 (CHR ''0'') (toString16 lo)))))
         = ''0x'' @ toString16 hi"
    using len by (simp add: stripZeros_padStart ensureHexPrefix_prefixed toString16_nonempty)
  show "ensureHexPrefix (stripZeros (drop 32 (drop 2
           (''0x'' @ padStart 32 (CHR ''0'') (toString16 hi) @ padStart 32 (CHR ''0'') (toString16 lo)))))
         = ''0x'' @ toString16 lo"
    using len by (simp add: stripZeros_padStart ensureHexPrefix_prefixed toString16_nonempty)
qed

text \<open>
  C2. For all values below \<open>2 ^ 128\<close>, packing \<open>(verificationGasLimit, callGasLimit)\<close>
  into \<^verbatim>\<open>accountGasLimits\<close> and \<open>(maxPriorityFeePerGas, maxFeePerGas)\<close> into
  \<^verbatim>\<open>gasFees\<close> succeeds with a field of 32 bytes, and \<^verbatim>\<open>unpackUserOp\<close> returns for each of the four exactly
  \<^verbatim>\<open>0x\<close> followed by the number's hex digits without any leading zero, which reads back
  as the number; the number 0 comes out as \<^verbatim>\<open>0x0\<close>.
\<close>

theorem pack_unpack_gas_fields:
  assumes "v < 2 ^ 128" and "c < 2 ^ 128" and "p < 2 ^ 128" and "f < 2 ^ 128"
  shows "\<exists>agl gf. packPair v c = Inr agl \<and> packPair p f = Inr gf \<and>
     length agl = 2 + 2 * 32 \<and> length gf = 2 + 2 * 32 \<and>
     u_verificationGasLimit (unpackUserOp (op\<lparr>accountGasLimits := agl, gasFees := gf\<rparr>)) = ''0x'' @ toString16 v \<and>
     u_callGasLimit (unpackUserOp (op\<lparr>accountGasLimits := agl, gasFees := gf\<rparr>)) = ''0x'' @ toString16 c \<and>
     u_maxPriorityFeePerGas (unpackUserOp (op\<lparr>accountGasLimits := agl, gasFees := gf\<rparr>)) = ''0x'' @ toString16 p \<and>
     u_maxFeePerGas (unpackUserOp (op\<lparr>accountGasLimits := agl, gasFees := gf\<rparr>)) = ''0x'' @ toString16 f \<and>
     hexDigitsValue (drop 2 (u_verificationGasLimit (unpackUserOp (op\<lparr>accountGasLimits := agl, gasFees := gf\<rparr>)))) = v \<and>
     hexDigitsValue (drop 2 (u_callGasLimit (unpackUserOp (op\<lparr>accountGasLimits := agl, gasFees := gf\<rparr>)))) = c \<and>
     hexDigitsValue (drop 2 (u_maxPriorityFeePerGas (unpackUserOp (op\<lparr>accountGasLimits := agl, gasFees := gf\<rparr>)))) = p \<and>
     hexDigitsValue (drop 2 (u_maxFeePerGas (unpackUserOp (op\<lparr>accountGasLimits := agl, gasFees := gf\<rparr>)))) = f \<and>
     (v = 0 \<or> hd (toString16 v) \<noteq> CHR ''0'') \<and> toString16 0 = ''0''"
proof -
  have nz: "v = 0 \<or> hd (toString16 v) \<noteq> CHR ''0''"
    using toString16_hd [of v] by auto
  have len: "length (padStart 32 (CHR ''0'') (toString16 n)) = 32" if "n < 2 ^ 128" for n
  proof -
    from that have "n < 16 ^ 32" by simp
    then have "length (toString16 n) \<le> 32" by (rule toString16_length) simp
    then show ?thesis by (rule length_padStart)
  qed
  show ?thesis
    using unpack_halves [OF assms(1), of c] unpack_halves [OF assms(3), of f] nz
      len [OF assms(1)] len [OF assms(2)] len [OF assms(3)] len [OF assms(4)]
    by (simp add: packPair_value [OF assms(1,2)] packPair_value [OF assms(3,4)]
        unpackUserOp_def hexDigitsValue_toString16 toString16_zero)
qed

lemma toString16_samples:
  "toString16 2000000 = ''1e8480''" "toString16 1000000000 = ''3b9aca00''"
  "toString16 10000000000 = ''2540be400''"
  by (simp_all add: toString16.simps hexDigit_def)

theorem pack_unpack_gas_fields_witness:
  "(2000000::nat) < 2 ^ 128 \<and> (0::nat) < 2 ^ 128 \<and> (1000000000::nat) < 2 ^ 128 \<and>
   (10000000000::nat) < 2 ^ 128 \<and>
   (\<exists>agl gf. packPair 2000000 0 = Inr agl \<and> packPair 1000000000 10000000000 = Inr gf \<and>
     u_verificationGasLimit (unpackUserOp (sample_op\<lparr>accountGasLimits := agl, gasFees := gf\<rparr>)) = ''0x1e8480'' \<and>
     u_callGasLimit (unpackUserOp (sample_op\<lparr>accountGasLimits := agl, gasFees := gf\<rparr>)) = ''0x0'' \<and>
     u_maxPriorityFeePerGas (unpackUserOp (sample_op\<lparr>accountGasLimits := agl, gasFees := gf\<rparr>)) = ''0x3b9aca00'' \<and>
     u_maxFeePerGas (unpackUserOp (sample_op\<lparr>accountGasLimits := agl, gasFees := gf\<rparr>)) = ''0x2540be400'')"
proof -
  have b: "(2000000::nat) < 2 ^ 128" "(0::nat) < 2 ^ 128" "(1000000000::nat) < 2 ^ 128"
    "(10000000000::nat) < 2 ^ 128" by simp_all
  from pack_unpack_gas_fields [OF b, of sample_op]
  obtain agl gf where "packPair 2000000 0 = Inr agl" "packPair 1000000000 10000000000 = Inr gf"
    "u_verificationGasLimit (unpackUserOp (sample_op\<lparr>accountGasLimits := agl, gasFees := gf\<rparr>)) = ''0x'' @ toString16 2000000"
    "u_callGasLimit (unpackUserOp (sample_op\<lparr>accountGasLimits := agl, gasFees := gf\<rparr>)) = ''0x'' @ toString16 0"
    "u_maxPriorityFeePerGas (unpackUserOp (sample_op\<lparr>accountGasLimits := agl, gasFees := gf\<rparr>)) = ''0x'' @ toString16 1000000000"
    "u_maxFeePerGas (unpackUserOp (sample_op\<lparr>accountGasLimits := agl, gasFees := gf\<rparr>)) = ''0x'' @ toString16 10000000000"
    by blast
  then show ?thesis
    using b by (simp only: toString16_samples toString16_zero) auto
qed

lemma hexDigitsValue_zero_cons: "hexDigitsValue (CHR ''0'' # s) = hexDigitsValue s"
  by (simp add: hexDigitsValue_def hexCharValue_def)

lemma hexDigitsValue_dropWhile:
  "hexDigitsValue (dropWhile (\<lambda>c. c = CHR ''0'') s) = hexDigitsValue s"
  by (induction s) (simp_all add: hexDigitsValue_zero_cons)

lemma stripZeros_shape:
  "\<exists>t. stripZeros s = CHR ''0'' # CHR ''x'' # t \<and> t \<noteq> [] \<and> hexDigitsValue t = hexDigitsValue s"
proof (cases "dropWhile (\<lambda>c. c = CHR ''0'') s = []")
  case True
  have "hexDigitsValue s = hexDigitsValue (dropWhile (\<lambda>c. c = CHR ''0'') s)"
    by (simp only: hexDigitsValue_dropWhile)
  also have "\<dots> = hexDigitsValue []" by (simp only: True)
  finally have "hexDigitsValue s = hexDigitsValue []" .
  then have "hexDigitsValue ''0'' = hexDigitsValue s"
    by (simp add: hexDigitsValue_zero_cons)
  with True show ?thesis by (simp add: stripZeros_def)
next
  case False
  then show ?thesis by (auto simp: stripZeros_def hexDigitsValue_dropWhile)
qed

lemma quantity_shape:
  "\<exists>t. ensureHexPrefix (stripZeros s) = ''0x'' @ t \<and> t \<noteq> [] \<and> hexDigitsValue t = hexDigitsValue s"
proof -
  obtain t where "stripZeros s = CHR ''0'' # CHR ''x'' # t" "t \<noteq> []"
    "hexDigitsValue t = hexDigitsValue s"
    using stripZeros_shape by blast
  then show ?thesis by (simp add: ensureHexPrefix_prefixed)
qed

lemma quantity_value:
  "hexDigitsValue (drop 2 (ensureHexPrefix (stripZeros s))) = hexDigitsValue s"
  using quantity_shape [of s] by auto

lemma quantity_prefix:
  "take 2 (ensureHexPrefix (stripZeros s)) = ''0x'' \<and> 2 < length (ensureHexPrefix (stripZeros s))"
  using quantity_shape [of s] by (auto simp: neq_Nil_conv)

lemma quantity_exact:
  "ensureHexPrefix (stripZeros ds)
     = ''0x'' @ (if dropWhile (\<lambda>c. c = CHR ''0'') ds = [] then ''0''
                else dropWhile (\<lambda>c. c = CHR ''0'') ds)"
  by (simp add: stripZeros_def ensureHexPrefix_prefixed)

lemma submitUserOp_accepted:
  "relay (unpackUserOp op) ep = Inr \<lparr>rpc_error = None, rpc_result = r\<rparr>
   \<Longrightarrow> submitUserOp relay ep op = Inr r"
  by (simp add: submitUserOp_def)

text \<open>
  C5, as the code has it. \<^verbatim>\<open>unpackUserOp\<close> has no width check: for
  \<^verbatim>\<open>accountGasLimits\<close> and \<^verbatim>\<open>gasFees\<close> of every width, the first unpacked field is
  \<^verbatim>\<open>0x\<close> followed by the first 32 hex digits behind the prefix with the leading
  \<^verbatim>\<open>0\<close> digits removed (\<^verbatim>\<open>0\<close> when nothing is left), and the second field is the same
  of the remaining digits; each reads back as the number of its digits. Whatever the widths,
  \<^verbatim>\<open>submitUserOp\<close> hands the unpacked record to the relay and returns the relay's result
  when the relay answers without an error. When a field is \<^verbatim>\<open>0x\<close> followed by two halves
  of 32 digits, that is 32 bytes, its two unpacked fields are the numbers of the two halves.
\<close>

theorem unpackUserOp_no_width_check:
  "u_verificationGasLimit (unpackUserOp op)
     = ''0x'' @ (if dropWhile (\<lambda>c. c = CHR ''0'') (take 32 (drop 2 (accountGasLimits op))) = [] then ''0''
                else dropWhile (\<lambda>c. c = CHR ''0'') (take 32 (drop 2 (accountGasLimits op)))) \<and>
   u_callGasLimit (unpackUserOp op)
     = ''0x'' @ (if dropWhile (\<lambda>c. c = CHR ''0'') (drop 32 (drop 2 (accountGasLimits op))) = [] then ''0''
                else dropWhile (\<lambda>c. c = CHR ''0'') (drop 32 (drop 2 (accountGasLimits op)))) \<and>
   u_maxPriorityFeePerGas (unpackUserOp op)
     = ''0x'' @ (if dropWhile (\<lambda>c. c = CHR ''0'') (take 32 (drop 2 (gasFees op))) = [] then ''0''
                else dropWhile (\<lambda>c. c = CHR ''0'') (take 32 (drop 2 (gasFees op)))) \<and>
   u_maxFeePerGas (unpackUserOp op)
     = ''0x'' @ (if dropWhile (\<lambda>c. c = CHR ''0'') (drop 32 (drop 2 (gasFees op))) = [] then ''0''
                else dropWhile (\<lambda>c. c = CHR ''0'') (drop 32 (drop 2 (gasFees op)))) \<and>
   hexDigitsValue (drop 2 (u_verificationGasLimit (unpackUserOp op)))
     = hexDigitsValue (take 32 (drop 2 (accountGasLimits op))) \<and>
   hexDigitsValue (drop 2 (u_callGasLimit (unpackUserOp op)))
     = hexDigitsValue (drop 32 (drop 2 (accountGasLimits op))) \<and>
   hexDigitsValue (drop 2 (u_maxPriorityFeePerGas (unpackUserOp op)))
     = hexDigitsValue (take 32 (drop 2 (gasFees op))) \<and>
   hexDigitsValue (drop 2 (u_maxFeePerGas (unpackUserOp op)))
     = hexDigitsValue (drop 32 (drop 2 (gasFees op))) \<and>
   (relay (unpackUserOp op) ep = Inr \<lparr>rpc_error = None, rpc_result = r\<rparr>
      \<longrightarrow> submitUserOp relay ep op = Inr r) \<and>
   (accountGasLimits op = ''0x'' @ a1 @ a2 \<and> length a1 = 32 \<and> length a2 = 32 \<longrightarrow>
      hexDigitsValue (drop 2 (u_verificationGasLimit (unpackUserOp op))) = hexDigitsValue a1 \<and>
      hexDigitsValue (drop 2 (u_callGasLimit (unpackUserOp op))) = hexDigitsValue a2) \<and>
   (gasFees op = ''0x'' @ g1 @ g2 \<and> length g1 = 32 \<and> length g2 = 32 \<longrightarrow>
      hexDigitsValue (drop 2 (u_maxPriorityFeePerGas (unpackUserOp op))) = hexDigitsValue g1 \<and>
      hexDigitsValue (drop 2 (u_maxFeePerGas (unpackUserOp op))) = hexDigitsValue g2)"
proof -
  have fields:
    "u_verificationGasLimit (unpackUserOp op)
       = ensureHexPrefix (stripZeros (take 32 (drop 2 (accountGasLimits op))))"
    "u_callGasLimit (unpackUserOp op)
       = ensureHexPrefix (stripZeros (drop 32 (drop 2 (accountGasLimits op))))"
    "u_maxPriorityFeePerGas (unpackUserOp op)
       = ensureHexPrefix (stripZeros (take 32 (drop 2 (gasFees op))))"
    "u_maxFeePerGas (unpackUserOp op)
       = ensureHexPrefix (stripZeros (drop 32 (drop 2 (gasFees op))))"
    by (simp_all add: unpackUserOp_def Let_def)
  have exact:
    "u_verificationGasLimit (unpackUserOp op)
     = ''0x'' @ (if dropWhile (\<lambda>c. c = CHR ''0'') (take 32 (drop 2 (accountGasLimits op))) = [] then ''0''
                else dropWhile (\<lambda>c. c = CHR ''0'') (take 32 (drop 2 (accountGasLimits op))))"
    "u_callGasLimit (unpackUserOp op)
     = ''0x'' @ (if dropWhile (\<lambda>c. c = CHR ''0'') (drop 32 (drop 2 (accountGasLimits op))) = [] then ''0''
                else dropWhile (\<lambda>c. c = CHR ''0'') (drop 32 (drop 2 (accountGasLimits op))))"
    "u_maxPriorityFeePerGas (unpackUserOp op)
     = ''0x'' @ (if dropWhile (\<lambda>c. c = CHR ''0'') (take 32 (drop 2 (gasFees op))) = [] then ''0''
                else dropWhile (\<lambda>c. c = CHR ''0'') (take 32 (drop 2 (gasFees op))))"
    "u_maxFeePerGas (unpackUserOp op)
     = ''0x'' @ (if dropWhile (\<lambda>c. c = CHR ''0'') (drop 32 (drop 2 (gasFees op))) = [] then ''0''
                else dropWhile (\<lambda>c. c = CHR ''0'') (drop 32 (drop 2 (gasFees op))))"
    unfolding fields by (rule quantity_exact)+
  have vals:
    "hexDigitsValue (drop 2 (u_verificationGasLimit (unpackUserOp op)))
       = hexDigitsValue (take 32 (drop 2 (accountGasLimits op)))"
    "hexDigitsValue (drop 2 (u_callGasLimit (unpackUserOp op)))
       = hexDigitsValue (drop 32 (drop 2 (accountGasLimits op)))"
    "hexDigitsValue (drop 2 (u_maxPriorityFeePerGas (unpackUserOp op)))
       = hexDigitsValue (take 32 (drop 2 (gasFees op)))"
    "hexDigitsValue (drop 2 (u_maxFeePerGas (unpackUserOp op)))
       = hexDigitsValue (drop 32 (drop 2 (gasFees op)))"
    unfolding fields by (rule quantity_value)+
  have halves:
    "accountGasLimits op = ''0x'' @ a1 @ a2 \<and> length a1 = 32 \<and> length a2 = 32 \<longrightarrow>
      hexDigitsValue (drop 2 (u_verificationGasLimit (unpackUserOp op))) = hexDigitsValue a1 \<and>
      hexDigitsValue (drop 2 (u_callGasLimit (unpackUserOp op))) = hexDigitsValue a2"
    "gasFees op = ''0x'' @ g1 @ g2 \<and> length g1 = 32 \<and> length g2 = 32 \<longrightarrow>
      hexDigitsValue (drop 2 (u_maxPriorityFeePerGas (unpackUserOp op))) = hexDigitsValue g1 \<and>
      hexDigitsValue (drop 2 (u_maxFeePerGas (unpackUserOp op))) = hexDigitsValue g2"
    by (simp_all add: vals)
  have sub: "relay (unpackUserOp op) ep = Inr \<lparr>rpc_error = None, rpc_result = r\<rparr>
      \<longrightarrow> submitUserOp relay ep op = Inr r"
    by (simp add: submitUserOp_accepted)
  from exact vals sub halves show ?thesis by (intro conjI)
qed

theorem unpackUserOp_no_width_check_witness:
  "accountGasLimits sample_op = ''0x'' @ ''000000000000000000000000001e8480'' @ ''000000000000000000000000000186a0'' \<and>
   gasFees sample_op = ''0x'' @ ''0000000000000000000000003b9aca00'' @ ''000000000000000000000002540be400'' \<and>
   hexDigitsValue (drop 2 (u_verificationGasLimit (unpackUserOp sample_op))) = 2000000 \<and>
   hexDigitsValue (drop 2 (u_callGasLimit (unpackUserOp sample_op))) = 100000 \<and>
   hexDigitsValue (drop 2 (u_maxPriorityFeePerGas (unpackUserOp sample_op))) = 1000000000 \<and>
   hexDigitsValue (drop 2 (u_maxFeePerGas (unpackUserOp sample_op))) = 10000000000 \<and>
   submitUserOp accepting_bundler ''0x0000000071727de22e5e9d8baf0edac6f37da032'' sample_op = Inr ''0xfeed''"
proof -
  have a: "accountGasLimits sample_op = ''0x'' @ ''000000000000000000000000001e8480'' @ ''000000000000000000000000000186a0''"
    and g: "gasFees sample_op = ''0x'' @ ''0000000000000000000000003b9aca00'' @ ''000000000000000000000002540be400''"
    by (simp_all add: sample_op_def)
  have v: "hexDigitsValue ''000000000000000000000000001e8480'' = 2000000"
    "hexDigitsValue ''000000000000000000000000000186a0'' = 100000"
    "hexDigitsValue ''0000000000000000000000003b9aca00'' = 1000000000"
    "hexDigitsValue ''000000000000000000000002540be400'' = 10000000000"
    by (simp_all add: hexDigitsValue_def hexCharValue_def)
  have b: "accepting_bundler (unpackUserOp sample_op) ''0x0000000071727de22e5e9d8baf0edac6f37da032''
      = Inr \<lparr>rpc_error = None, rpc_result = ''0xfeed''\<rparr>"
    by (simp add: accepting_bundler_def)
  note t = unpackUserOp_no_width_check [of sample_op accepting_bundler
      "''0x0000000071727de22e5e9d8baf0edac6f37da032''" "''0xfeed''"
      "''000000000000000000000000001e8480''"
      "''000000000000000000000000000186a0''" "''0000000000000000000000003b9aca00''"
      "''000000000000000000000002540be400''"]
  from t have h1: "accountGasLimits sample_op
        = ''0x'' @ ''000000000000000000000000001e8480'' @ ''000000000000000000000000000186a0'' \<and>
        length ''000000000000000000000000001e8480'' = 32 \<and>
        length ''000000000000000000000000000186a0'' = 32 \<longrightarrow>
      hexDigitsValue (drop 2 (u_verificationGasLimit (unpackUserOp sample_op)))
        = hexDigitsValue ''000000000000000000000000001e8480'' \<and>
      hexDigitsValue (drop 2 (u_callGasLimit (unpackUserOp sample_op)))
        = hexDigitsValue ''000000000000000000000000000186a0''"
    by blast
  from t have h2: "gasFees sample_op
        = ''0x'' @ ''0000000000000000000000003b9aca00'' @ ''000000000000000000000002540be400'' \<and>
        length ''0000000000000000000000003b9aca00'' = 32 \<and>
        length ''000000000000000000000002540be400'' = 32 \<longrightarrow>
      hexDigitsValue (drop 2 (u_maxPriorityFeePerGas (unpackUserOp sample_op)))
        = hexDigitsValue ''0000000000000000000000003b9aca00'' \<and>
      hexDigitsValue (drop 2 (u_maxFeePerGas (unpackUserOp sample_op)))
        = hexDigitsValue ''000000000000000000000002540be400''"
    by blast
  from t have h3: "accepting_bundler (unpackUserOp sample_op) ''0x0000000071727de22e5e9d8baf0edac6f37da032''
        = Inr \<lparr>rpc_error = None, rpc_result = ''0xfeed''\<rparr>
      \<longrightarrow> submitUserOp accepting_bundler ''0x0000000071727de22e5e9d8baf0edac6f37da032'' sample_op
        = Inr ''0xfeed''"
    by blast
  have l: "length ''000000000000000000000000001e8480'' = 32"
    "length ''000000000000000000000000000186a0'' = 32"
    "length ''0000000000000000000000003b9aca00'' = 32"
    "length ''000000000000000000000002540be400'' = 32"
    by simp_all
  from h1 a l have "hexDigitsValue (drop 2 (u_verificationGasLimit (unpackUserOp sample_op)))
        = hexDigitsValue ''000000000000000000000000001e8480''"
    and "hexDigitsValue (drop 2 (u_callGasLimit (unpackUserOp sample_op)))
        = hexDigitsValue ''000000000000000000000000000186a0''"
    by blast+
  moreover from h2 g l have "hexDigitsValue (drop 2 (u_maxPriorityFeePerGas (unpackUserOp sample_op)))
        = hexDigitsValue ''0000000000000000000000003b9aca00''"
    and "hexDigitsValue (drop 2 (u_maxFeePerGas (unpackUserOp sample_op)))
        = hexDigitsValue ''000000000000000000000002540be400''"
    by blast+
  moreover from h3 b
  have "submitUserOp accepting_bundler ''0x0000000071727de22e5e9d8baf0edac6f37da032'' sample_op = Inr ''0xfeed''"
    by blast
  ultimately
  have "hexDigitsValue (drop 2 (u_verificationGasLimit (unpackUserOp sample_op))) = hexDigitsValue ''000000000000000000000000001e8480'' \<and>
        hexDigitsValue (drop 2 (u_callGasLimit (unpackUserOp sample_op))) = hexDigitsValue ''000000000000000000000000000186a0'' \<and>
        hexDigitsValue (drop 2 (u_maxPriorityFeePerGas (unpackUserOp sample_op))) = hexDigitsValue ''0000000000000000000000003b9aca00'' \<and>
        hexDigitsValue (drop 2 (u_maxFeePerGas (unpackUserOp sample_op))) = hexDigitsValue ''000000000000000000000002540be400'' \<and>
        submitUserOp accepting_bundler ''0x0000000071727de22e5e9d8baf0edac6f37da032'' sample_op = Inr ''0xfeed''"
    by blast
  with a g v show ?thesis by (simp only:)
qed

text \<open>
  C5, as the claim states it, fails: a one-byte \<^verbatim>\<open>accountGasLimits\<close> and an empty
  \<^verbatim>\<open>gasFees\<close> are not rejected; the fields \<^verbatim>\<open>0x1\<close> and \<^verbatim>\<open>0x0\<close> come out, and
  \<^verbatim>\<open>submitUserOp\<close> sends them to the relay and returns the relay's result.
\<close>

theorem unpackUserOp_accepts_one_byte:
  "u_verificationGasLimit (unpackUserOp (sample_op\<lparr>accountGasLimits := ''0x01'', gasFees := ''0x''\<rparr>)) = ''0x1'' \<and>
   u_callGasLimit (unpackUserOp (sample_op\<lparr>accountGasLimits := ''0x01'', gasFees := ''0x''\<rparr>)) = ''0x0'' \<and>
   u_maxPriorityFeePerGas (unpackUserOp (sample_op\<lparr>accountGasLimits := ''0x01'', gasFees := ''0x''\<rparr>)) = ''0x0'' \<and>
   u_maxFeePerGas (unpackUserOp (sample_op\<lparr>accountGasLimits := ''0x01'', gasFees := ''0x''\<rparr>)) = ''0x0'' \<and>
   submitUserOp accepting_bundler ''0x0000000071727de22e5e9d8baf0edac6f37da032''
     (sample_op\<lparr>accountGasLimits := ''0x01'', gasFees := ''0x''\<rparr>) = Inr ''0xfeed''"
  by (simp add: unpackUserOp_def stripZeros_def ensureHexPrefix_def startsWith0x_def
      submitUserOp_def accepting_bundler_def)

text \<open>
  C10. \<^verbatim>\<open>unpackUserOp\<close> copies \<^verbatim>\<open>sender\<close>, \<^verbatim>\<open>nonce\<close>, \<^verbatim>\<open>callData\<close>,
  \<^verbatim>\<open>preVerificationGas\<close> and \<^verbatim>\<open>signature\<close> unchanged, and sets the factory and
  paymaster fields to \<^verbatim>\<open>null\<close>, whatever \<^verbatim>\<open>initCode\<close> and \<^verbatim>\<open>paymasterAndData\<close> hold.
\<close>

theorem unpackUserOp_frame:
  "u_sender (unpackUserOp packed) = sender packed \<and>
   u_nonce (unpackUserOp packed) = nonce packed \<and>
   u_callData (unpackUserOp packed) = callData packed \<and>
   u_preVerificationGas (unpackUserOp packed) = preVerificationGas packed \<and>
   u_signature (unpackUserOp packed) = signature packed \<and>
   u_factory (unpackUserOp packed) = None \<and>
   u_factoryData (unpackUserOp packed) = None \<and>
   u_paymaster (unpackUserOp packed) = None \<and>
   u_paymasterVerificationGasLimit (unpackUserOp packed) = None \<and>
   u_paymasterPostOpGasLimit (unpackUserOp packed) = None \<and>
   u_paymasterData (unpackUserOp packed) = None"
  by (simp add: unpackUserOp_def Let_def)

section \<open>SignerBackend: proofs\<close>

text \<open>
  The remote-plugin signer and the plugin's own \<^verbatim>\<open>signUserOp\<close> reject a hash that is not
  32 bytes long before anything else happens: no request is sent, the library is not called.
\<close>

lemma signViaSnap_rejects_wrong_length:
  "length hash \<noteq> 32 \<Longrightarrow>
   signViaSnap CHAIN_ID ethereum hash =
     ([], Inl (Error (''Expected 32-byte UserOp hash, got '' @ toString10 (length hash))))"
  by (simp add: signViaSnap_def)

lemma signUserOp_rejects_wrong_length:
  "length userOpHash \<noteq> 32 \<Longrightarrow>
   signUserOp algo_sign sk userOpHash level =
     Inl (Error (''UserOp hash must be 32 bytes, got '' @ toString10 (length userOpHash)))"
  by (simp add: signUserOp_def)

text \<open>
  C4. Both signers fail fast on a hash that is not 32 bytes long. The in-memory-seed signer
  \<^verbatim>\<open>signUserOpHash\<close> does not: with a key pair loaded it hands a hash of any length to
  the library and returns what the library returns.
\<close>

theorem signUserOpHash_no_length_check:
  "signUserOpHash ml_dsa65_sign (Some kp) hash = ml_dsa65_sign hash (kp_secretKey kp)"
  by (simp add: signUserOpHash_def getKeypair_def)





section \<open>Operation lifecycle: proofs\<close>

text \<open>
  C9. When the operation is built and signed and the relay answers the submission with an
  error carrying the message \<open>m\<close>, \<^verbatim>\<open>handleApprove\<close> ends in the status \<^verbatim>\<open>error\<close>, the
  stored error and the rejection sent to the session (code -32000) are
  \<^verbatim>\<open>Bundler error: \<close> followed by \<open>m\<close> unchanged, and \<^verbatim>\<open>waitForReceipt\<close> is not called.
\<close>

theorem relay_rejection_ends_failed:
  assumes "wk env" and "pendingTx env = Some tx" and "signerReady env"
    and "buildUserOp env tx (signerMode env) = Inr userOp"
    and "bundler env (unpackUserOp userOp) (ENTRYPOINT env) = Inr result"
    and "rpc_error result = Some \<lparr>rpc_message = Some m\<rparr>"
  shows "txStatus (handleApprove env st) = error \<and>
         txError (handleApprove env st) = Some (''Bundler error: '' @ m) \<and>
         responses (handleApprove env st)
           = responses st @ [(tx_topic tx, tx_id tx, Rejection (- 32000) (''Bundler error: '' @ m))] \<and>
         calls (handleApprove env st)
           = calls st @ [BuildUserOp] @ (if signerMode env = snap then [GetSnapInfo] else [])
               @ [SubmitUserOp, RespondSessionRequest] \<and>
         count_list (calls (handleApprove env st)) WaitForReceipt = count_list (calls st) WaitForReceipt"
proof -
  have sub: "submitUserOp (bundler env) (ENTRYPOINT env) userOp = Inl (Error (''Bundler error: '' @ m))"
    using assms(5,6) by (simp add: submitUserOp_def)
  show ?thesis
    using assms(1-4) sub
    by (simp add: handleApprove_def catchBlock_def errMessage_def respond_def called_def addLog_def Let_def)
qed

theorem relay_rejection_ends_failed_witness:
  "wk rejecting_env \<and> pendingTx rejecting_env = Some sample_tx \<and> signerReady rejecting_env \<and>
   buildUserOp rejecting_env sample_tx (signerMode rejecting_env) = Inr sample_op \<and>
   txStatus (handleApprove rejecting_env idle_app) = error \<and>
   txError (handleApprove rejecting_env idle_app) = Some ''Bundler error: AA21 did not pay prefund'' \<and>
   responses (handleApprove rejecting_env idle_app)
     = [(''topic-1'', 7, Rejection (- 32000) ''Bundler error: AA21 did not pay prefund'')] \<and>
   calls (handleApprove rejecting_env idle_app) = [BuildUserOp, SubmitUserOp, RespondSessionRequest]"
proof -
  have h: "wk rejecting_env" "pendingTx rejecting_env = Some sample_tx" "signerReady rejecting_env"
    "buildUserOp rejecting_env sample_tx (signerMode rejecting_env) = Inr sample_op"
    "bundler rejecting_env (unpackUserOp sample_op) (ENTRYPOINT rejecting_env)
       = Inr \<lparr> rpc_error = Some \<lparr> rpc_message = Some ''AA21 did not pay prefund'' \<rparr>, rpc_result = [] \<rparr>"
    "rpc_error \<lparr> rpc_error = Some \<lparr> rpc_message = Some ''AA21 did not pay prefund'' \<rparr>, rpc_result = [] \<rparr>
       = Some \<lparr> rpc_message = Some ''AA21 did not pay prefund'' \<rparr>"
    by (simp_all add: rejecting_env_def)
  have s: "signerMode rejecting_env = seed" "responses idle_app = []" "calls idle_app = []"
    "tx_topic sample_tx = ''topic-1''" "tx_id sample_tx = 7"
    by (simp_all add: rejecting_env_def idle_app_def sample_tx_def)
  show ?thesis
    using relay_rejection_ends_failed [OF h, of idle_app] h(1-4) s by simp
qed

section \<open>OnChainValidator: proofs\<close>

lemma length_toBytesBE: "length (toBytesBE n w) = n"
  by (simp add: toBytesBE_def)

text \<open>
  C3. For an account with an installed key, \<^verbatim>\<open>isValidSignatureWithSender\<close> asks the
  verifier about the stored key, the signature and the re-derived hash
  \<open>senderBoundHash_spec\<close> (validator address, chain id, account, sender, original hash, packed
  in this order: 124 bytes), never about the original hash itself; its answer decides between
  the two magic values.
\<close>

theorem isValidSignatureWithSender_rehash:
  assumes "isInitialized st (msg_sender ctx)"
  shows "isValidSignatureWithSender keccak256 verifier ctx st caller h sig =
           (case verifier (publicKeys st (msg_sender ctx))
                   (senderBoundHash_spec keccak256 (this ctx) (chainid ctx) (msg_sender ctx) caller h) sig of
              None \<Rightarrow> None
            | Some ok \<Rightarrow> Some (if ok then ERC1271_VALID else ERC1271_INVALID)) \<and>
         length (encodePacked [PAddress (this ctx), PUint256 (chainid ctx), PAddress (msg_sender ctx),
                               PAddress caller, PBytes32 h]) = 124"
  using assms
  by (simp add: isValidSignatureWithSender_def senderBoundHash_spec_def encodePacked_def Let_def
      length_toBytesBE)


theorem isValidSignatureWithSender_rehash_witness:
  "isInitialized installed_storage (msg_sender sample_ctx) \<and>
   isValidSignatureWithSender length_hash length_verifier sample_ctx installed_storage 0xdead 1 [0xca, 0xfe]
     = Some ERC1271_VALID"
proof -
  have i: "isInitialized installed_storage (msg_sender sample_ctx)"
    by (simp add: isInitialized_def installed_storage_def sample_ctx_def)
  have k: "publicKeys installed_storage (msg_sender sample_ctx) = replicate 1952 1"
    by (simp add: installed_storage_def sample_ctx_def)
  have h: "senderBoundHash_spec length_hash (this sample_ctx) (chainid sample_ctx)
             (msg_sender sample_ctx) 0xdead 1 = 124"
    by (simp add: senderBoundHash_spec_def length_hash_def length_toBytesBE)
  show ?thesis
    using isValidSignatureWithSender_rehash [OF i, of length_hash length_verifier "0xdead" 1 "[0xca, 0xfe]"] i
    by (simp add: k h length_verifier_def)
qed

section \<open>OperationCodec: proofs about the operation hash\<close>

lemma bindE_simps [simp]: "bindE (Inl e) f = Inl e" "bindE (Inr x) f = f x"
  by (simp_all add: bindE_def)

lemma bindE_return: "bindE r Inr = r"
  by (cases r) simp_all

lemma decodeNibbles_append:
  "length s1 mod 2 = 0 \<Longrightarrow> decodeNibbles s1 = Inr b1 \<Longrightarrow> decodeNibbles s2 = Inr b2
   \<Longrightarrow> decodeNibbles (s1 @ s2) = Inr (b1 @ b2)"
proof (induction s1 arbitrary: b1 rule: decodeNibbles.induct)
  case (1 a b rest)
  from "1.prems"(2) obtain l r bs where ab: "charCodeToBase16 a = Some l" "charCodeToBase16 b = Some r"
    and rest: "decodeNibbles rest = Inr bs" and b1: "b1 = of_nat (l * 16 + r) # bs"
    by (auto split: option.splits sum.splits)
  from "1.prems"(1) have "length rest mod 2 = 0" by simp
  with "1.IH" [OF refl ab(1) ab(2) _ rest "1.prems"(3)] have "decodeNibbles (rest @ s2) = Inr (bs @ b2)"
    by simp
  with ab b1 show ?case by simp
qed simp_all

lemma decodeNibbles_length:
  "decodeNibbles s = Inr bs \<Longrightarrow> length bs = length s div 2"
proof (induction s arbitrary: bs rule: decodeNibbles.induct)
  case (1 a b rest)
  then show ?case by (auto split: option.splits sum.splits)
qed simp_all

lemma charCodeToBase16_hexDigit: "d < 16 \<Longrightarrow> charCodeToBase16 (hexDigit d) = Some d"
  by (simp add: charCodeToBase16_def hexDigit_props)

lemma decodeNibbles_encode: "decodeNibbles (concat (map byteToHex bs)) = Inr bs"
proof (induction bs)
  case Nil
  show ?case by simp
next
  case (Cons b bs)
  from byte_bound [of b] have h: "unat b div 16 < 16" and l: "unat b mod 16 < 16" by simp_all
  have "(of_nat (unat b div 16 * 16 + unat b mod 16) :: 8 word) = b" by simp
  with Cons.IH show ?case
    by (simp add: byteToHex_digits charCodeToBase16_hexDigit [OF h] charCodeToBase16_hexDigit [OF l])
qed

lemma length_encode: "length (concat (map byteToHex bs)) = 2 * length bs"
  by (induction bs) (simp_all add: byteToHex_digits)

lemma startsWith0x_split: "startsWith0x v \<Longrightarrow> v = ''0x'' @ drop 2 v"
  by (cases v rule: removeFirst0x.cases) (auto simp: startsWith0x_def)

lemma removeFirst0x_startsWith: "startsWith0x v \<Longrightarrow> removeFirst0x v = drop 2 v"
  by (cases v rule: removeFirst0x.cases) (auto simp: startsWith0x_def)

lemma decodeNibbles_hex:
  "length s mod 2 = 0 \<Longrightarrow> decodeNibbles s = Inr bs \<Longrightarrow> list_all isHexChar s"
proof (induction s arbitrary: bs rule: induct_list012)
  case (3 a b rest)
  from "3.prems"(2) obtain l r bs' where "charCodeToBase16 a = Some l" "charCodeToBase16 b = Some r"
    and rest: "decodeNibbles rest = Inr bs'"
    by (auto split: option.splits sum.splits)
  then have ab: "isHexChar a" "isHexChar b"
    by (auto simp: charCodeToBase16_def split: if_splits)
  from "3.prems"(1) have "length rest mod 2 = 0" by simp
  then have "list_all isHexChar rest" using rest by (rule "3.IH"(1))
  with ab show ?case by simp
qed simp_all

lemma viem_hexToBytes_strict:
  assumes "startsWith0x v" "viem_hexToBytes v = Inr bs"
  shows "isHexStrict v"
proof (cases "length (drop 2 v) mod 2 = 0")
  case True
  with assms(2) have "decodeNibbles (drop 2 v) = Inr bs" by (simp add: viem_hexToBytes_def)
  with True have "list_all isHexChar (drop 2 v)" by (rule decodeNibbles_hex)
  with assms(1) show ?thesis by (simp add: isHexStrict_def)
next
  case False
  with assms(2) have d: "decodeNibbles (CHR ''0'' # drop 2 v) = Inr bs"
    by (simp add: viem_hexToBytes_def)
  from False have "length (CHR ''0'' # drop 2 v) mod 2 = 0" by simp presburger
  then have "list_all isHexChar (CHR ''0'' # drop 2 v)" using d by (rule decodeNibbles_hex)
  with assms(1) show ?thesis by (simp add: isHexStrict_def)
qed

lemma keccak256_hex_value:
  "startsWith0x v \<Longrightarrow> viem_hexToBytes v = Inr bs \<Longrightarrow>
   keccak256_hex h v = Inr (bytesToHex (h bs))"
  using viem_hexToBytes_strict [of v bs] by (simp add: keccak256_hex_def)

lemma viem_hexToBytes_even:
  "length ws mod 2 = 0 \<Longrightarrow> viem_hexToBytes (''0x'' @ ws) = decodeNibbles ws"
  by (simp add: viem_hexToBytes_def)

lemma word_of_digest:
  assumes "length hs = 32"
  shows "encodeAbiValue h (AbiBytes32 (bytesToHex hs)) = Inr (concat (map byteToHex hs))"
  using assms
  by (simp add: bytesToHex_def startsWith0x_def length_encode padEnd_def)

lemma word_of_bytes32:
  assumes "startsWith0x v" "length v = 66" "viem_hexToBytes v = Inr a"
  shows "encodeAbiValue h (AbiBytes32 v) = Inr (drop 2 v)"
    and "decodeNibbles (drop 2 v) = Inr a" and "length a = 32"
proof -
  show "encodeAbiValue h (AbiBytes32 v) = Inr (drop 2 v)"
    using assms(1,2) by (simp add: removeFirst0x_startsWith padEnd_def)
  show d: "decodeNibbles (drop 2 v) = Inr a"
    using assms(2,3) by (simp add: viem_hexToBytes_def)
  show "length a = 32"
    using decodeNibbles_length [OF d] assms(2) by simp
qed


lemma hexFixed_zero: "hexFixed k 0 = replicate k (CHR ''0'')"
  by (induction k) (simp_all add: hexDigit_def replicate_append_same)

lemma length_hexFixed: "length (hexFixed k n) = k"
  by (induction k arbitrary: n) simp_all

lemma padStart_toString16:
  "n < 16 ^ k \<Longrightarrow> 0 < k \<Longrightarrow> padStart k (CHR ''0'') (toString16 n) = hexFixed k n"
proof (induction n arbitrary: k rule: toString16.induct)
  case (1 n)
  obtain j where k: "k = Suc j" using "1.prems"(2) by (cases k) auto
  show ?case
  proof (cases "n < 16")
    case True
    then show ?thesis
      by (simp add: k toString16_small padStart_def hexFixed_zero)
  next
    case False
    have j: "0 < j" using False "1.prems"(1) k by (cases j) auto
    have lt: "n div 16 < 16 ^ j" using "1.prems"(1) k
      by (simp add: less_mult_imp_div_less mult.commute)
    from "1.IH" [OF False lt j] have "padStart j (CHR ''0'') (toString16 (n div 16)) = hexFixed j (n div 16)" .
    then show ?thesis
      using False by (simp add: k toString16_step padStart_def)
  qed
qed

lemma decodeNibbles_hexFixed: "decodeNibbles (hexFixed (2 * k) n) = Inr (be_bytes k n)"
proof (induction k arbitrary: n)
  case 0
  show ?case by simp
next
  case (Suc k)
  have e: "hexFixed (2 * Suc k) n
      = hexFixed (2 * k) (n div 256) @ [hexDigit (n div 16 mod 16), hexDigit (n mod 16)]"
  proof -
    have "n div 16 div 16 = n div 256" by (simp add: div_mult2_eq)
    then show ?thesis by simp
  qed
  have two: "decodeNibbles [hexDigit (n div 16 mod 16), hexDigit (n mod 16)]
      = Inr [of_nat (n mod 256)]"
  proof -
    have "n div 16 mod 16 * 16 + n mod 16 = n mod 256"
      using mod_mult2_eq [of n 16 16] by simp
    then show ?thesis
      by (simp add: charCodeToBase16_hexDigit)
  qed
  show ?case
    unfolding e
    using decodeNibbles_append [OF _ Suc.IH two] by (simp add: length_hexFixed)
qed

lemma word_of_uint:
  assumes "0 \<le> n" "n < 2 ^ 256"
  shows "encodeAbiValue h (AbiUint256 n) = Inr (hexFixed 64 (nat n))"
    and "decodeNibbles (hexFixed 64 (nat n)) = Inr (uintWord (nat n))"
proof -
  have "nat n < 2 ^ 256" using assms by (simp add: nat_less_iff)
  then have "nat n < 16 ^ 64" by simp
  then have "padStart 64 (CHR ''0'') (toString16 (nat n)) = hexFixed 64 (nat n)"
    by (rule padStart_toString16) simp
  then show "encodeAbiValue h (AbiUint256 n) = Inr (hexFixed 64 (nat n))"
    using assms by simp
  show "decodeNibbles (hexFixed 64 (nat n)) = Inr (uintWord (nat n))"
    using decodeNibbles_hexFixed [of 32 "nat n"] by (simp add: uintWord_def)
qed


lemma hexChar_cases:
  "isHexChar c \<Longrightarrow> c \<in> set ''0123456789abcdefABCDEF''"
  by (simp add: isHexChar_def)

lemma toLowerChar_digits:
  "toLowerChar (CHR ''0'') = CHR ''0''" "toLowerChar (CHR ''1'') = CHR ''1''"
  "toLowerChar (CHR ''2'') = CHR ''2''" "toLowerChar (CHR ''3'') = CHR ''3''"
  "toLowerChar (CHR ''4'') = CHR ''4''" "toLowerChar (CHR ''5'') = CHR ''5''"
  "toLowerChar (CHR ''6'') = CHR ''6''" "toLowerChar (CHR ''7'') = CHR ''7''"
  "toLowerChar (CHR ''8'') = CHR ''8''" "toLowerChar (CHR ''9'') = CHR ''9''"
  "toLowerChar (CHR ''a'') = CHR ''a''" "toLowerChar (CHR ''b'') = CHR ''b''"
  "toLowerChar (CHR ''c'') = CHR ''c''" "toLowerChar (CHR ''d'') = CHR ''d''"
  "toLowerChar (CHR ''e'') = CHR ''e''" "toLowerChar (CHR ''f'') = CHR ''f''"
  "toLowerChar (CHR ''A'') = CHR ''a''" "toLowerChar (CHR ''B'') = CHR ''b''"
  "toLowerChar (CHR ''C'') = CHR ''c''" "toLowerChar (CHR ''D'') = CHR ''d''"
  "toLowerChar (CHR ''E'') = CHR ''e''" "toLowerChar (CHR ''F'') = CHR ''f''"
  "toLowerChar (CHR ''x'') = CHR ''x''"
  by (simp_all add: toLowerChar_def)

lemma charCodeToBase16_values:
  "charCodeToBase16 (CHR ''A'') = Some 10" "charCodeToBase16 (CHR ''a'') = Some 10"
  "charCodeToBase16 (CHR ''B'') = Some 11" "charCodeToBase16 (CHR ''b'') = Some 11"
  "charCodeToBase16 (CHR ''C'') = Some 12" "charCodeToBase16 (CHR ''c'') = Some 12"
  "charCodeToBase16 (CHR ''D'') = Some 13" "charCodeToBase16 (CHR ''d'') = Some 13"
  "charCodeToBase16 (CHR ''E'') = Some 14" "charCodeToBase16 (CHR ''e'') = Some 14"
  "charCodeToBase16 (CHR ''F'') = Some 15" "charCodeToBase16 (CHR ''f'') = Some 15"
  by (simp_all add: charCodeToBase16_def isHexChar_def hexCharValue_def)

lemma charCodeToBase16_lower:
  assumes "isHexChar c"
  shows "charCodeToBase16 (toLowerChar c) = charCodeToBase16 c"
proof -
  from assms have "c \<in> set ''0123456789abcdefABCDEF''" by (rule hexChar_cases)
  then show ?thesis
    by (auto simp only: set_simps insert_iff empty_iff toLowerChar_digits charCodeToBase16_values)
qed

lemma decodeNibbles_lower:
  "list_all isHexChar s \<Longrightarrow> decodeNibbles (map toLowerChar s) = decodeNibbles s"
proof (induction s rule: induct_list012)
  case (3 a b rest)
  then show ?case by (auto simp: charCodeToBase16_lower split: option.splits)
qed simp_all

lemma decodeNibbles_zeros:
  "decodeNibbles (replicate (2 * k) (CHR ''0'')) = Inr (replicate k 0)"
  by (induction k) (simp_all add: charCodeToBase16_def isHexChar_def hexCharValue_def)

lemma isAddress_shape:
  "isAddress h a \<Longrightarrow> startsWith0x a \<and> length a = 42 \<and> list_all isHexChar (drop 2 a)"
  by (simp add: isAddress_def split: if_splits)

lemma word_of_address:
  assumes "isAddress h a" "viem_hexToBytes a = Inr ab"
  shows "encodeAbiValue h (AbiAddress a)
           = Inr (replicate 24 (CHR ''0'') @ map toLowerChar (drop 2 a))"
    and "decodeNibbles (replicate 24 (CHR ''0'') @ map toLowerChar (drop 2 a)) = Inr (addressWord ab)"
    and "length (replicate 24 (CHR ''0'') @ map toLowerChar (drop 2 a)) = 64"
proof -
  from isAddress_shape [OF assms(1)]
  have sw: "startsWith0x a" and len: "length a = 42" and hex: "list_all isHexChar (drop 2 a)"
    by simp_all
  have a: "a = ''0x'' @ drop 2 a" using sw by (rule startsWith0x_split)
  have "map toLowerChar a = ''0x'' @ map toLowerChar (drop 2 a)"
    by (subst a) (simp add: toLowerChar_digits)
  then have "removeFirst0x (map toLowerChar a) = map toLowerChar (drop 2 a)"
    by simp
  then show "encodeAbiValue h (AbiAddress a)
           = Inr (replicate 24 (CHR ''0'') @ map toLowerChar (drop 2 a))"
    using assms(1) len by (simp add: padStart_def)
  have d: "decodeNibbles (drop 2 a) = Inr ab"
    using assms(2) len by (simp add: viem_hexToBytes_def)
  then have "length ab = 20" using decodeNibbles_length [OF d] len by simp
  then have w: "addressWord ab = replicate 12 0 @ ab" by (simp add: addressWord_def)
  have z: "decodeNibbles (replicate 24 (CHR ''0'')) = Inr (replicate 12 0)"
    using decodeNibbles_zeros [of 12] by simp
  have l: "decodeNibbles (map toLowerChar (drop 2 a)) = Inr ab"
    using d hex by (simp add: decodeNibbles_lower)
  show "decodeNibbles (replicate 24 (CHR ''0'') @ map toLowerChar (drop 2 a)) = Inr (addressWord ab)"
    unfolding w by (rule decodeNibbles_append [OF _ z l]) simp
  show "length (replicate 24 (CHR ''0'') @ map toLowerChar (drop 2 a)) = 64"
    using len by simp
qed

lemma words_cons:
  assumes "encodeAbiValue h v = Inr w" "length w = 64" "decodeNibbles w = Inr b"
    and "encodeAbiWords h vs = Inr ws \<and> decodeNibbles ws = Inr bs \<and> length ws mod 2 = 0"
  shows "encodeAbiWords h (v # vs) = Inr (w @ ws) \<and> decodeNibbles (w @ ws) = Inr (b @ bs)
         \<and> length (w @ ws) mod 2 = 0"
proof -
  have "decodeNibbles (w @ ws) = Inr (b @ bs)"
    using assms by (intro decodeNibbles_append) simp_all
  moreover have "(length w + length ws) mod 2 = 0"
  proof -
    from assms(4) have "length ws mod 2 = 0" by simp
    with assms(2) show ?thesis by presburger
  qed
  ultimately show ?thesis using assms by simp
qed

lemma words_nil:
  "encodeAbiWords h [] = Inr [] \<and> decodeNibbles [] = Inr [] \<and> length ([] :: string) mod 2 = 0"
  by simp

lemma keccak256_hex_words:
  assumes "encodeAbiWords h vs = Inr ws \<and> decodeNibbles ws = Inr bs \<and> length ws mod 2 = 0"
  shows "bindE (encodeAbiParameters h vs) (\<lambda>packed. bindE (keccak256_hex h packed) f)
           = f (bytesToHex (h bs))"
proof -
  from assms have "viem_hexToBytes (''0x'' @ ws) = Inr bs"
    by (simp add: viem_hexToBytes_def)
  then have "keccak256_hex h (''0x'' @ ws) = Inr (bytesToHex (h bs))"
    by (intro keccak256_hex_value) (simp_all add: startsWith0x_def)
  with assms show ?thesis by (simp add: encodeAbiParameters_def)
qed

lemma keccak256_hex_words_last:
  assumes "encodeAbiWords h vs = Inr ws \<and> decodeNibbles ws = Inr bs \<and> length ws mod 2 = 0"
  shows "bindE (encodeAbiParameters h vs) (keccak256_hex h) = Inr (bytesToHex (h bs))"
proof -
  from assms have "viem_hexToBytes (''0x'' @ ws) = Inr bs"
    by (simp add: viem_hexToBytes_def)
  then have "keccak256_hex h (''0x'' @ ws) = Inr (bytesToHex (h bs))"
    by (intro keccak256_hex_value) (simp_all add: startsWith0x_def)
  with assms show ?thesis by (simp add: encodeAbiParameters_def)
qed

lemma word_of_digest_decode:
  assumes "length hs = 32"
  shows "encodeAbiValue h (AbiBytes32 (bytesToHex hs)) = Inr (concat (map byteToHex hs))"
    and "length (concat (map byteToHex hs)) = 64"
    and "decodeNibbles (concat (map byteToHex hs)) = Inr hs"
  using assms word_of_digest [OF assms, of h] by (simp_all add: length_encode decodeNibbles_encode)

text \<open>
  C1. \<^verbatim>\<open>computeUserOpHash\<close> is a function of the operation record, the EntryPoint
  address and the chain id alone (the \<^verbatim>\<open>signature\<close> field is not read). For a well-formed
  record (addresses that the library accepts, numbers below \<open>2 ^ 256\<close>, hex values, 32-byte
  \<^verbatim>\<open>accountGasLimits\<close> and \<^verbatim>\<open>gasFees\<close>) and a hash function with 32-byte digests it
  returns, as a hex string, the two-stage hash: stage A over the tuple of sender, nonce,
  hash of \<^verbatim>\<open>initCode\<close>, hash of \<^verbatim>\<open>callData\<close>, \<^verbatim>\<open>accountGasLimits\<close>,
  \<^verbatim>\<open>preVerificationGas\<close>, \<^verbatim>\<open>gasFees\<close> and hash of \<^verbatim>\<open>paymasterAndData\<close>; stage B
  over the result of stage A, the EntryPoint address and the chain id. The digest has 32 bytes.
\<close>

theorem computeUserOpHash_two_stage:
  assumes h32: "\<forall>x. length (keccak_256 x) = 32"
    and sender: "isAddress keccak_256 (sender op)" "viem_hexToBytes (sender op) = Inr senderA"
    and nonce: "BigInt (nonce op) = Inr n" "0 \<le> n" "n < 2 ^ 256"
    and initCode: "startsWith0x (initCode op)" "viem_hexToBytes (initCode op) = Inr ic"
    and callData: "startsWith0x (callData op)" "viem_hexToBytes (callData op) = Inr cd"
    and agl: "startsWith0x (accountGasLimits op)" "length (accountGasLimits op) = 66"
      "viem_hexToBytes (accountGasLimits op) = Inr agl"
    and pvg: "BigInt (preVerificationGas op) = Inr g" "0 \<le> g" "g < 2 ^ 256"
    and gasFees: "startsWith0x (gasFees op)" "length (gasFees op) = 66"
      "viem_hexToBytes (gasFees op) = Inr gf"
    and pmd: "startsWith0x (paymasterAndData op)" "viem_hexToBytes (paymasterAndData op) = Inr pm"
    and ep: "isAddress keccak_256 entryPoint" "viem_hexToBytes entryPoint = Inr epA"
    and chain: "0 \<le> c" "c < 2 ^ 256"
  shows "computeUserOpHash keccak_256 entryPoint (Some c) op
           = Inr (bytesToHex (stageB keccak_256
                    (stageA keccak_256 senderA (nat n) ic cd agl (nat g) gf pm) epA (nat c))) \<and>
         length (stageB keccak_256
                    (stageA keccak_256 senderA (nat n) ic cd agl (nat g) gf pm) epA (nat c)) = 32 \<and>
         computeUserOpHash keccak_256 entryPoint (Some c) (op\<lparr>signature := sig\<rparr>)
           = computeUserOpHash keccak_256 entryPoint (Some c) op"
proof -
  have len: "\<And>x. length (keccak_256 x) = 32" using h32 by simp
  note k = keccak256_hex_value
  have k1: "keccak256_hex keccak_256 (initCode op) = Inr (bytesToHex (keccak_256 ic))"
    and k2: "keccak256_hex keccak_256 (callData op) = Inr (bytesToHex (keccak_256 cd))"
    and k3: "keccak256_hex keccak_256 (paymasterAndData op) = Inr (bytesToHex (keccak_256 pm))"
    by (simp_all add: k initCode callData pmd)
  note w8 = word_of_digest_decode [OF len [of pm]]
  note w7 = word_of_bytes32 [OF gasFees]
  note w6 = word_of_uint [OF pvg(2,3)]
  note w5 = word_of_bytes32 [OF agl]
  note w4 = word_of_digest_decode [OF len [of cd]]
  note w3 = word_of_digest_decode [OF len [of ic]]
  note w2 = word_of_uint [OF nonce(2,3)]
  note w1 = word_of_address [OF sender]
  have l7: "length (drop 2 (gasFees op)) = 64" using gasFees(2) by simp
  have l5: "length (drop 2 (accountGasLimits op)) = 64" using agl(2) by simp
  note s8 = words_cons [OF w8(1) w8(2) w8(3) words_nil]
  note s7 = words_cons [OF w7(1) l7 w7(2) s8]
  note s6 = words_cons [OF w6(1) length_hexFixed w6(2) s7]
  note s5 = words_cons [OF w5(1) l5 w5(2) s6]
  note s4 = words_cons [OF w4(1) w4(2) w4(3) s5]
  note s3 = words_cons [OF w3(1) w3(2) w3(3) s4]
  note s2 = words_cons [OF w2(1) length_hexFixed w2(2) s3]
  note s1 = words_cons [OF w1(1) w1(3) w1(2) s2]
  let ?inner = "stageA keccak_256 senderA (nat n) ic cd agl (nat g) gf pm"
  have inner: "keccak_256 (addressWord senderA @ uintWord (nat n) @ keccak_256 ic @ keccak_256 cd
      @ agl @ uintWord (nat g) @ gf @ keccak_256 pm @ []) = ?inner"
    by (simp add: stageA_def)
  note v3 = word_of_uint [OF chain]
  note v2 = word_of_address [OF ep]
  have linner: "length ?inner = 32" by (simp add: stageA_def len)
  note v1 = word_of_digest_decode [OF linner]
  note t3 = words_cons [OF v3(1) length_hexFixed v3(2) words_nil]
  note t2 = words_cons [OF v2(1) v2(3) v2(2) t3]
  note t1 = words_cons [OF v1(1) v1(2) v1(3) t2]
  have "computeUserOpHash keccak_256 entryPoint (Some c) op
      = Inr (bytesToHex (keccak_256 (?inner @ addressWord epA @ uintWord (nat c) @ [])))"
    unfolding computeUserOpHash_def
    apply (simp only: nonce(1) pvg(1) k1 k2 k3 bindE_simps keccak256_hex_words [OF s1] inner)
    apply (simp only: BigInt_of_number_def option.case bindE_simps keccak256_hex_words_last [OF t1])
    done
  moreover have "computeUserOpHash keccak_256 entryPoint (Some c) (op\<lparr>signature := sig\<rparr>)
      = computeUserOpHash keccak_256 entryPoint (Some c) op"
    by (simp add: computeUserOpHash_def)
  ultimately show ?thesis by (simp add: stageB_def len)
qed


lemma length_be_bytes: "length (be_bytes k n) = k"
  by (induction k arbitrary: n) simp_all

lemma byteToHex_samples: "byteToHex 0 = ''00''" "byteToHex 96 = ''60''"
  by (simp_all add: byteToHex_digits hexDigit_def)

lemma zero_digits:
  "concat (replicate 30 ''00'') = ''000000000000000000000000000000000000000000000000000000000000''"
  by (simp add: numeral_eq_Suc)

theorem computeUserOpHash_two_stage_witness:
  "isAddress toy_hash (sender sample_op) \<and>
   isAddress toy_hash ''0x0000000071727de22e5e9d8baf0edac6f37da032'' \<and>
   BigInt (nonce sample_op) = Inr 0 \<and>
   BigInt (preVerificationGas sample_op) = Inr 100000 \<and>
   viem_hexToBytes (callData sample_op) = Inr [233, 174, 92, 83] \<and>
   computeUserOpHash toy_hash ''0x0000000071727de22e5e9d8baf0edac6f37da032'' (Some 412346) sample_op
     = Inr ''0x0000000000000000000000000000000000000000000000000000000000000060''"
proof -
  note ev = viem_hexToBytes_def charCodeToBase16_def isHexChar_def hexCharValue_def
    startsWith0x_def sample_op_def
  have h32: "\<forall>x. length (toy_hash x) = 32" by (simp add: toy_hash_def)
  have s1: "isAddress toy_hash (sender sample_op)"
    by (simp add: isAddress_def ev toLowerChar_digits)
  have s2: "viem_hexToBytes (sender sample_op)
      = Inr [18, 52, 86, 120, 144, 171, 205, 239, 18, 52, 86, 120, 144, 171, 205, 239, 18, 52, 86, 120]"
    by (simp add: ev)
  have n1: "BigInt (nonce sample_op) = Inr 0" and n2: "(0::int) \<le> 0" and n3: "(0::int) < 2 ^ 256"
    by (simp_all add: BigInt_def integerLiteral_def isDigitOf_def digitsValue_def isJsWhiteSpace_def ev)
  have i1: "startsWith0x (initCode sample_op)" and i2: "viem_hexToBytes (initCode sample_op) = Inr []"
    by (simp_all add: ev)
  have c1: "startsWith0x (callData sample_op)"
    and c2: "viem_hexToBytes (callData sample_op) = Inr [233, 174, 92, 83]"
    by (simp_all add: ev)
  have a1: "startsWith0x (accountGasLimits sample_op)" and a2: "length (accountGasLimits sample_op) = 66"
    and a3: "viem_hexToBytes (accountGasLimits sample_op)
      = Inr [0, 0, 0, 0, 0, 0, 0, 0, 0, 0, 0, 0, 0, 30, 132, 128, 0, 0, 0, 0, 0, 0, 0, 0, 0, 0, 0, 0, 0, 1, 134, 160]"
    by (simp_all add: ev)
  have g1: "BigInt (preVerificationGas sample_op) = Inr 100000" and g2: "(0::int) \<le> 100000"
    and g3: "(100000::int) < 2 ^ 256"
    by (simp_all add: BigInt_def integerLiteral_def isDigitOf_def digitsValue_def isJsWhiteSpace_def ev)
  have f1: "startsWith0x (gasFees sample_op)" and f2: "length (gasFees sample_op) = 66"
    and f3: "viem_hexToBytes (gasFees sample_op)
      = Inr [0, 0, 0, 0, 0, 0, 0, 0, 0, 0, 0, 0, 59, 154, 202, 0, 0, 0, 0, 0, 0, 0, 0, 0, 0, 0, 0, 2, 84, 11, 228, 0]"
    by (simp_all add: ev)
  have p1: "startsWith0x (paymasterAndData sample_op)"
    and p2: "viem_hexToBytes (paymasterAndData sample_op) = Inr []"
    by (simp_all add: ev)
  have e1: "isAddress toy_hash ''0x0000000071727de22e5e9d8baf0edac6f37da032''"
    by (simp add: isAddress_def ev toLowerChar_digits)
  have e2: "viem_hexToBytes ''0x0000000071727de22e5e9d8baf0edac6f37da032''
      = Inr [0, 0, 0, 0, 113, 114, 125, 226, 46, 94, 157, 139, 175, 14, 218, 198, 243, 125, 160, 50]"
    by (simp add: ev)
  have k1: "(0::int) \<le> 412346" and k2: "(412346::int) < 2 ^ 256" by simp_all
  have out: "bytesToHex (toy_hash (toy_hash x @ addressWord [0, 0, 0, 0, 113, 114, 125, 226, 46, 94, 157, 139, 175, 14, 218, 198, 243, 125, 160, 50] @ uintWord m))
      = ''0x0000000000000000000000000000000000000000000000000000000000000060''" for x m
    by (simp add: toy_hash_def addressWord_def uintWord_def length_be_bytes bytesToHex_def
        byteToHex_samples zero_digits)
  from computeUserOpHash_two_stage [OF h32 s1 s2 n1 n2 n3 i1 i2 c1 c2 a1 a2 a3 g1 g2 g3 f1 f2 f3 p1 p2 e1 e2 k1 k2]
  have "computeUserOpHash toy_hash ''0x0000000071727de22e5e9d8baf0edac6f37da032'' (Some 412346) sample_op
     = Inr ''0x0000000000000000000000000000000000000000000000000000000000000060''"
    by (simp only: stageB_def stageA_def out)
  with s1 e1 n1 g1 c2 show ?thesis by (simp only: simp_thms)
qed

end
